theory Spec2Isabelle
  imports Main
begin

section \<open>The Review model of lib/review.py\<close>

text \<open>
  The class \<open>Review\<close> maps rows of the table
  \<open>reviews(id INTEGER PRIMARY KEY, year INTEGER, summary TEXT, employee_id INTEGER)\<close> to
  objects. It keeps a class-wide dictionary \<open>all\<close> from primary key to object and talks
  to an SQLite database through a shared cursor. The embedding makes the three pieces of
  mutable state explicit: the heap of Review objects (callers hold references into it),
  the dictionary \<open>all\<close>, and the two tables the code queries.
\<close>

subsection \<open>Python values and exceptions\<close>

text \<open>
  The arguments of the setters are dynamically typed. \<open>PBool\<close> is kept apart from
  \<open>PInt\<close> because \<open>isinstance(True, int)\<close> holds in Python; \<open>POther\<close> stands for a
  value of any other type (a float, bytes, a list, ...), which every setter rejects. A
  \<open>str\<close> is a list of characters, each a code point below 256.
\<close>

datatype pyval = PNone | PBool bool | PInt int | PStr string | POther nat

text \<open>
  The module itself raises \<open>ValueError\<close> only. The sqlite3 library raises
  \<open>OverflowError\<close> when it has to bind an integer that does not fit SQLite's signed
  64-bit INTEGER, and \<open>OperationalError\<close> when the database refuses a statement.
\<close>

datatype py_error = ValueError string | OverflowError string | OperationalError string

fun exception_class :: "py_error \<Rightarrow> string" where
  "exception_class (ValueError msg) = ''ValueError''"
| "exception_class (OverflowError msg) = ''OverflowError''"
| "exception_class (OperationalError msg) = ''OperationalError''"


text \<open>\<open>isinstance(value, int)\<close>: true of an int and of a bool.\<close>

fun is_int :: "pyval \<Rightarrow> bool" where
  "is_int (PInt i) = True"
| "is_int (PBool b) = True"
| "is_int v = False"

text \<open>\<open>isinstance(value, str)\<close>.\<close>

fun is_str :: "pyval \<Rightarrow> bool" where
  "is_str (PStr s) = True"
| "is_str v = False"

text \<open>The characters of a str; applied only to values that passed \<open>is_str\<close>.\<close>

fun str_of :: "pyval \<Rightarrow> string" where
  "str_of (PStr s) = s"
| "str_of v = []"

text \<open>
  The integer an int or a bool denotes (\<open>True == 1\<close>, \<open>False == 0\<close>). It is applied only
  to values that passed \<open>is_int\<close>.
\<close>

fun int_of :: "pyval \<Rightarrow> int" where
  "int_of (PInt i) = i"
| "int_of (PBool b) = (if b then 1 else 0)"
| "int_of v = 0"

text \<open>
  \<open>str.strip()\<close> removes leading and trailing whitespace. Among the code points below
  256 Python's whitespace is 9 to 13, 28 to 32, 133 and 160.
\<close>

definition is_space :: "char \<Rightarrow> bool" where
  "is_space c = ((of_char c :: nat) \<in> {9, 10, 11, 12, 13, 28, 29, 30, 31, 32, 133, 160})"

definition strip :: "string \<Rightarrow> string" where
  "strip s = rev (dropWhile is_space (rev (dropWhile is_space s)))"

subsection \<open>Binding parameters\<close>

text \<open>
  An integer parameter of a statement must fit SQLite's INTEGER, a signed 64-bit number.
  For any other integer \<open>CURSOR.execute\<close> raises \<open>OverflowError\<close> before the statement
  runs; \<open>None\<close> is bound as NULL and a str as TEXT, which never fails.
\<close>

definition in_int64 :: "int \<Rightarrow> bool" where
  "in_int64 i = (- (2 ^ 63) \<le> i \<and> i < 2 ^ 63)"

definition int_too_large :: py_error where
  "int_too_large = OverflowError ''Python int too large to convert to SQLite INTEGER''"

text \<open>The least integer above the range.\<close>

definition beyond_int64 :: int where
  "beyond_int64 = 2 ^ 63"

definition bindable :: "int option \<Rightarrow> bool" where
  "bindable v = (case v of None \<Rightarrow> True | Some i \<Rightarrow> in_int64 i)"

subsection \<open>Objects, the cache and the database\<close>

text \<open>
  The scope of the model. A row holds, in each column, a value of the column's declared
  type or NULL: an integer or NULL as year and as employee_id, a text or NULL as
  summary. SQLite also lets a column hold a value of another storage class, and
  \<open>instance_from_db\<close> accepts a tuple of any Python values; such rows are not
  modelled. The private attributes of a Review are written by the setters and by
  \<open>instance_from_db\<close> only, so \<open>_year\<close> and \<open>_employee_id\<close> hold \<open>None\<close> or an int
  and \<open>_summary\<close> holds \<open>None\<close> or a str. \<open>_id\<close> and \<open>_employee_id\<close> receive values
  that passed \<open>isinstance(value, int)\<close>; a bool among them is kept as the integer it
  equals.
\<close>

record Review =
  f_id :: "int option"
  f_year :: "int option"
  f_summary :: "string option"
  f_employee_id :: "int option"

text \<open>The Python value of an integer column or attribute, and of a text one.\<close>

fun py_int :: "int option \<Rightarrow> pyval" where
  "py_int None = PNone"
| "py_int (Some i) = PInt i"

fun py_str :: "string option \<Rightarrow> pyval" where
  "py_str None = PNone"
| "py_str (Some s) = PStr s"

text \<open>The property getters \<open>year\<close>, \<open>summary\<close> and \<open>employee_id\<close>.\<close>

definition year_getter :: "Review \<Rightarrow> pyval" where
  "year_getter self = py_int (f_year self)"

definition summary_getter :: "Review \<Rightarrow> pyval" where
  "summary_getter self = py_str (f_summary self)"

definition employee_id_getter :: "Review \<Rightarrow> pyval" where
  "employee_id_getter self = py_int (f_employee_id self)"

type_synonym ref = nat

text \<open>A row \<open>(id, year, summary, employee_id)\<close> of the reviews table.\<close>

type_synonym row = "int \<times> int option \<times> string option \<times> int option"

text \<open>
  The state the module works on. \<open>heap\<close> holds the Review objects ever constructed; a
  reference is an index into it. \<open>all\<close> is the class attribute \<open>Review.all\<close>. \<open>reviews\<close>
  and \<open>employees\<close> are the two tables (of the employees table only the id column is
  read), both taken to exist; \<open>commits\<close> counts the calls of \<open>CONN.commit()\<close>. The
  foreign key that \<open>create_table\<close> declares is not enforced by SQLite unless a pragma
  switches it on, which the module does not do.
\<close>

record world =
  heap :: "Review list"
  all :: "int \<rightharpoonup> ref"
  reviews :: "row list"
  employees :: "int list"
  commits :: nat

text \<open>
  An operation returns its outcome (the exception raised, or the value returned) together
  with the state it leaves behind.
\<close>

type_synonym 'a result = "(py_error + 'a) \<times> world"

text \<open>
  The key of an inserted row is chosen by the database (\<open>CURSOR.lastrowid\<close>), so the
  operations that insert take the database's rule as a parameter: a function from the keys
  in the table to the new key, or to no key when the database refuses the insert.
  \<open>sqlite_rowid\<close> is the rule SQLite follows for a column declared
  \<open>INTEGER PRIMARY KEY\<close> without \<open>AUTOINCREMENT\<close>, as \<open>create_table\<close> declares it: 1 in
  an empty table, else one more than the largest key; when the largest key is the
  largest INTEGER, SQLite tries keys at random and gives up after some attempts. The
  outcome of that search is the parameter \<open>pick\<close>.
\<close>

definition max_rowid :: int where
  "max_rowid = 2 ^ 63 - 1"

definition sqlite_rowid :: "(int list \<Rightarrow> int option) \<Rightarrow> int list \<Rightarrow> int option" where
  "sqlite_rowid pick ids =
     (if ids = [] then Some 1
      else if Max (set ids) < max_rowid then Some (Max (set ids) + 1)
      else pick ids)"

text \<open>A random search that finds no key.\<close>

definition give_up :: "int list \<Rightarrow> int option" where
  "give_up ids = None"

subsection \<open>Properties and validation\<close>

definition id_setter :: "pyval \<Rightarrow> Review \<Rightarrow> py_error + Review" where
  "id_setter value self =
     (if value \<noteq> PNone \<and> \<not> is_int value
      then Inl (ValueError ''id must be an integer or None'')
      else Inr (self\<lparr>f_id := (if value = PNone then None else Some (int_of value))\<rparr>))"

definition year_setter :: "pyval \<Rightarrow> Review \<Rightarrow> py_error + Review" where
  "year_setter value self =
     (if \<not> is_int value then Inl (ValueError ''year must be an integer'')
      else if int_of value < 2000 then Inl (ValueError ''year must be >= 2000'')
      else Inr (self\<lparr>f_year := Some (int_of value)\<rparr>))"

definition summary_setter :: "pyval \<Rightarrow> Review \<Rightarrow> py_error + Review" where
  "summary_setter value self =
     (if \<not> is_str value \<or> strip (str_of value) = []
      then Inl (ValueError ''summary must be a non-empty string'')
      else Inr (self\<lparr>f_summary := Some (str_of value)\<rparr>))"

text \<open>
  \<open>SELECT id FROM employees WHERE id = ?\<close> followed by \<open>fetchone() is None\<close>, for a
  parameter that could be bound.
\<close>

definition employee_exists :: "world \<Rightarrow> int \<Rightarrow> bool" where
  "employee_exists w i = (i \<in> set (employees w))"

definition employee_id_setter :: "world \<Rightarrow> pyval \<Rightarrow> Review \<Rightarrow> py_error + Review" where
  "employee_id_setter w value self =
     (if \<not> is_int value then Inl (ValueError ''employee_id must be an integer'')
      else if \<not> in_int64 (int_of value) then Inl int_too_large
      else if \<not> employee_exists w (int_of value)
      then Inl (ValueError ''employee_id must reference a persisted Employee'')
      else Inr (self\<lparr>f_employee_id := Some (int_of value)\<rparr>))"

text \<open>
  \<open>__init__\<close>: the four attributes start as \<open>None\<close> and are then assigned through the
  setters, in the order id, year, summary, employee_id. The first setter that raises ends
  the construction.
\<close>

definition init :: "world \<Rightarrow> pyval \<Rightarrow> pyval \<Rightarrow> pyval \<Rightarrow> pyval \<Rightarrow> py_error + Review" where
  "init w year summary employee_id ident =
     (case id_setter ident \<lparr>f_id = None, f_year = None, f_summary = None, f_employee_id = None\<rparr> of
        Inl e \<Rightarrow> Inl e
      | Inr o1 \<Rightarrow>
          (case year_setter year o1 of
             Inl e \<Rightarrow> Inl e
           | Inr o2 \<Rightarrow>
               (case summary_setter summary o2 of
                  Inl e \<Rightarrow> Inl e
                | Inr o3 \<Rightarrow> employee_id_setter w employee_id o3)))"

text \<open>
  The call \<open>Review(year, summary, employee_id, id)\<close>: when \<open>__init__\<close> returns, the new
  object is on the heap and the caller holds its reference. When \<open>__init__\<close> raises, no
  reference to the object survives, and the state is as before.
\<close>

definition new_Review :: "pyval \<Rightarrow> pyval \<Rightarrow> pyval \<Rightarrow> pyval \<Rightarrow> world \<Rightarrow> ref result" where
  "new_Review year summary employee_id ident w =
     (case init w year summary employee_id ident of
        Inl e \<Rightarrow> (Inl e, w)
      | Inr obj \<Rightarrow> (Inr (length (heap w)), w\<lparr>heap := heap w @ [obj]\<rparr>))"

text \<open>An assignment \<open>review.year = value\<close> (and its siblings) to an object on the heap.\<close>

definition assign :: "(Review \<Rightarrow> py_error + Review) \<Rightarrow> ref \<Rightarrow> world \<Rightarrow> unit result" where
  "assign setter self w =
     (case setter (heap w ! self) of
        Inl e \<Rightarrow> (Inl e, w)
      | Inr obj \<Rightarrow> (Inr (), w\<lparr>heap := (heap w)[self := obj]\<rparr>))"

subsection \<open>ORM methods\<close>

text \<open>
  \<open>save\<close>: an instance that has an id is returned as it is. Otherwise \<open>execute\<close> binds
  the year, the summary and the employee_id, and raises when an integer among them does
  not fit. The \<open>INSERT\<close> then appends a row under the key the database generates, or
  fails with "database or disk is full" when it generates none. After the commit
  \<open>lastrowid\<close> is the key, and the instance is given the key as its id and cached under
  it. When \<open>execute\<close> raises, nothing is inserted, committed or cached.
\<close>

definition save :: "(int list \<Rightarrow> int option) \<Rightarrow> ref \<Rightarrow> world \<Rightarrow> ref result" where
  "save rowid self w =
     (let obj = heap w ! self in
      if f_id obj \<noteq> None then (Inr self, w)
      else if \<not> (bindable (f_year obj) \<and> bindable (f_employee_id obj))
      then (Inl int_too_large, w)
      else
        (case rowid (map fst (reviews w)) of
           None \<Rightarrow> (Inl (OperationalError ''database or disk is full''), w)
         | Some lastrowid \<Rightarrow>
             (Inr self,
              w\<lparr>reviews := reviews w @ [(lastrowid, f_year obj, f_summary obj, f_employee_id obj)],
                commits := commits w + 1,
                heap := (heap w)[self := obj\<lparr>f_id := Some lastrowid\<rparr>],
                all := (all w)(lastrowid \<mapsto> self)\<rparr>)))"

definition create :: "(int list \<Rightarrow> int option) \<Rightarrow> pyval \<Rightarrow> pyval \<Rightarrow> pyval \<Rightarrow> world \<Rightarrow> ref result" where
  "create rowid year summary employee_id w =
     (case new_Review year summary employee_id PNone w of
        (Inl e, w') \<Rightarrow> (Inl e, w')
      | (Inr self, w') \<Rightarrow> save rowid self w')"

text \<open>
  An object of the class has neither \<open>__bool__\<close> nor \<open>__len__\<close>, so \<open>if review:\<close> tests
  whether the dictionary had the key. The cached branch touches no database; the other
  one calls the constructor with the values of the row.
\<close>

definition instance_from_db :: "row \<Rightarrow> world \<Rightarrow> ref result" where
  "instance_from_db r w =
     (case r of (rid, year, summary, employee_id) \<Rightarrow>
        (case all w rid of
           Some review \<Rightarrow>
             (Inr review,
              w\<lparr>heap := (heap w)[review := (heap w ! review)
                   \<lparr>f_year := year, f_summary := summary, f_employee_id := employee_id\<rparr>]\<rparr>)
         | None \<Rightarrow>
             (case new_Review (py_int year) (py_str summary) (py_int employee_id) (PInt rid) w of
                (Inl e, w') \<Rightarrow> (Inl e, w')
              | (Inr review, w') \<Rightarrow> (Inr review, w'\<lparr>all := (all w')(rid \<mapsto> review)\<rparr>))))"

text \<open>
  \<open>SELECT ... FROM reviews WHERE id = ?\<close> followed by \<open>fetchone()\<close>, for a parameter
  that could be bound. The argument of \<open>find_by_id\<close> is taken to be an int; binding it
  raises when it does not fit.
\<close>

definition select_by_id :: "world \<Rightarrow> int \<Rightarrow> row option" where
  "select_by_id w i = find (\<lambda>r. fst r = i) (reviews w)"

definition find_by_id :: "int \<Rightarrow> world \<Rightarrow> ref option result" where
  "find_by_id i w =
     (if \<not> in_int64 i then (Inl int_too_large, w)
      else
        (case select_by_id w i of
           None \<Rightarrow> (Inr None, w)
         | Some r \<Rightarrow>
             (case instance_from_db r w of
                (Inl e, w') \<Rightarrow> (Inl e, w')
              | (Inr review, w') \<Rightarrow> (Inr (Some review), w'))))"

text \<open>
  \<open>update\<close>: without an id the module raises. Otherwise \<open>execute\<close> binds the year, the
  summary, the employee_id and the id, and raises when an integer among them does not
  fit; then nothing is written, committed or cached.
  \<open>UPDATE reviews SET ... WHERE id = ?\<close> rewrites the rows that have the id of the
  instance, if there are any.
\<close>

definition update :: "ref \<Rightarrow> world \<Rightarrow> unit result" where
  "update self w =
     (let obj = heap w ! self in
      case f_id obj of
        None \<Rightarrow> (Inl (ValueError ''cannot update a Review without an id''), w)
      | Some i \<Rightarrow>
          if \<not> (bindable (f_year obj) \<and> bindable (f_employee_id obj) \<and> in_int64 i)
          then (Inl int_too_large, w)
          else
            (Inr (),
             w\<lparr>reviews := map (\<lambda>r. if fst r = i
                                    then (i, f_year obj, f_summary obj, f_employee_id obj)
                                    else r) (reviews w),
               commits := commits w + 1,
               all := (all w)(i \<mapsto> self)\<rparr>))"

text \<open>
  \<open>delete\<close>: without an id it returns at once. Otherwise \<open>execute\<close> binds the id and
  raises when it does not fit; then nothing is deleted, committed or evicted, and the
  instance keeps its id. \<open>DELETE FROM reviews WHERE id = ?\<close> removes the rows that have
  the id of the instance; \<open>all.pop(self.id, None)\<close> removes the key from the cache,
  whatever object it maps to.
\<close>

definition delete :: "ref \<Rightarrow> world \<Rightarrow> unit result" where
  "delete self w =
     (let obj = heap w ! self in
      case f_id obj of
        None \<Rightarrow> (Inr (), w)
      | Some i \<Rightarrow>
          if \<not> in_int64 i then (Inl int_too_large, w)
          else
            (Inr (),
             w\<lparr>reviews := filter (\<lambda>r. fst r \<noteq> i) (reviews w),
               commits := commits w + 1,
               all := (all w)(i := None),
               heap := (heap w)[self := obj\<lparr>f_id := None\<rparr>]\<rparr>))"

text \<open>
  The list comprehension of \<open>get_all\<close>: the rows are hydrated in order; a row that raises
  ends the call, and what the earlier rows did to the state stays. The \<open>SELECT\<close> has no
  \<open>ORDER BY\<close>; SQLite scans the table in the order of the keys.
\<close>

fun hydrate :: "row list \<Rightarrow> world \<Rightarrow> ref list result" where
  "hydrate [] w = (Inr [], w)"
| "hydrate (r # rs) w =
     (case instance_from_db r w of
        (Inl e, w') \<Rightarrow> (Inl e, w')
      | (Inr review, w') \<Rightarrow>
          (case hydrate rs w' of
             (Inl e, w'') \<Rightarrow> (Inl e, w'')
           | (Inr rest, w'') \<Rightarrow> (Inr (review # rest), w'')))"

definition get_all :: "world \<Rightarrow> ref list result" where
  "get_all w = hydrate (sort_key fst (reviews w)) w"

subsection \<open>The validation constraints\<close>

text \<open>
  The constraints on the three data attributes: the year is an integer that is at least
  2000, the summary is a string that is not empty after trimming, the employee id is an
  integer that is the id of a row of the employees table.
\<close>

definition year_ok :: "pyval \<Rightarrow> bool" where
  "year_ok v = (is_int v \<and> 2000 \<le> int_of v)"

definition summary_ok :: "pyval \<Rightarrow> bool" where
  "summary_ok v = (is_str v \<and> strip (str_of v) \<noteq> [])"

definition employee_id_ok :: "world \<Rightarrow> pyval \<Rightarrow> bool" where
  "employee_id_ok w v = (is_int v \<and> int_of v \<in> set (employees w))"

definition valid_review :: "world \<Rightarrow> Review \<Rightarrow> bool" where
  "valid_review w obj =
     (year_ok (year_getter obj) \<and> summary_ok (summary_getter obj)
      \<and> employee_id_ok w (employee_id_getter obj))"

definition valid_row :: "world \<Rightarrow> row \<Rightarrow> bool" where
  "valid_row w r =
     (case r of (rid, year, summary, employee_id) \<Rightarrow>
        year_ok (py_int year) \<and> summary_ok (py_str summary)
        \<and> employee_id_ok w (py_int employee_id))"

text \<open>Every object in memory, and every stored row, satisfies the constraints.\<close>

definition all_valid :: "world \<Rightarrow> bool" where
  "all_valid w = ((\<forall>obj \<in> set (heap w). valid_review w obj) \<and> (\<forall>r \<in> set (reviews w). valid_row w r))"

subsection \<open>Sequences of calls\<close>

text \<open>
  A client program is a sequence of calls of the class's interface. A call that raises
  leaves the state it had reached, and the program goes on (the exception is caught by
  the caller). Python has no dangling reference, so a call on a reference that is not on
  the heap stands for no call and is skipped.
\<close>

datatype call =
    New pyval pyval pyval pyval
  | Set_id ref pyval
  | Set_year ref pyval
  | Set_summary ref pyval
  | Set_employee_id ref pyval
  | Save ref
  | Create pyval pyval pyval
  | Instance_from_db row
  | Find_by_id int
  | Update ref
  | Delete ref
  | Get_all

fun exec :: "(int list \<Rightarrow> int option) \<Rightarrow> call \<Rightarrow> world \<Rightarrow> world" where
  "exec rowid (New year summary employee_id ident) w = snd (new_Review year summary employee_id ident w)"
| "exec rowid (Set_id self v) w =
     (if self < length (heap w) then snd (assign (id_setter v) self w) else w)"
| "exec rowid (Set_year self v) w =
     (if self < length (heap w) then snd (assign (year_setter v) self w) else w)"
| "exec rowid (Set_summary self v) w =
     (if self < length (heap w) then snd (assign (summary_setter v) self w) else w)"
| "exec rowid (Set_employee_id self v) w =
     (if self < length (heap w) then snd (assign (employee_id_setter w v) self w) else w)"
| "exec rowid (Save self) w = (if self < length (heap w) then snd (save rowid self w) else w)"
| "exec rowid (Create year summary employee_id) w = snd (create rowid year summary employee_id w)"
| "exec rowid (Instance_from_db r) w = snd (instance_from_db r w)"
| "exec rowid (Find_by_id i) w = snd (find_by_id i w)"
| "exec rowid (Update self) w = (if self < length (heap w) then snd (update self w) else w)"
| "exec rowid (Delete self) w = (if self < length (heap w) then snd (delete self w) else w)"
| "exec rowid Get_all w = snd (get_all w)"

definition run :: "(int list \<Rightarrow> int option) \<Rightarrow> call list \<Rightarrow> world \<Rightarrow> world" where
  "run rowid calls w = fold (exec rowid) calls w"

text \<open>The rows a program hands to \<open>instance_from_db\<close> itself.\<close>

fun handed_rows :: "call list \<Rightarrow> row list" where
  "handed_rows [] = []"
| "handed_rows (Instance_from_db r # calls) = r # handed_rows calls"
| "handed_rows (c # calls) = handed_rows calls"

subsection \<open>Example states\<close>

text \<open>No object, no row, and one employee, whose id is 3.\<close>

definition example_empty :: world where
  "example_empty = \<lparr>heap = [], all = Map.empty, reviews = [], employees = [3], commits = 0\<rparr>"

definition example_review :: Review where
  "example_review =
     \<lparr>f_id = None, f_year = Some 2022, f_summary = Some ''Exceeded expectations'',
      f_employee_id = Some 3\<rparr>"

text \<open>After \<open>Review(2022, "Exceeded expectations", 3)\<close> in the empty state.\<close>

definition example_unsaved :: world where
  "example_unsaved =
     \<lparr>heap = [example_review], all = Map.empty, reviews = [], employees = [3], commits = 0\<rparr>"

text \<open>After \<open>Review.create(2022, "Exceeded expectations", 3)\<close> in the empty state.\<close>

definition example_saved :: world where
  "example_saved =
     \<lparr>heap = [example_review\<lparr>f_id := Some 1\<rparr>], all = [1 \<mapsto> 0],
      reviews = [(1, Some 2022, Some ''Exceeded expectations'', Some 3)],
      employees = [3], commits = 1\<rparr>"



text \<open>
  After \<open>r = Review(2022, "Exceeded expectations", 3, id=5)\<close> and \<open>r.update()\<close> in the
  empty state: the object is cached under 5 and the table has no row.
\<close>

definition example_orphan :: world where
  "example_orphan =
     snd (update 0 (snd (new_Review (PInt 2022) (PStr ''Exceeded expectations'') (PInt 3) (PInt 5)
                          example_empty)))"


text \<open>
  After \<open>Review(2022, "Exceeded expectations", 3, id=2**63)\<close> in the empty state: the id
  setter accepts an integer that SQLite cannot hold.
\<close>

definition example_huge_id :: world where
  "example_huge_id =
     snd (new_Review (PInt 2022) (PStr ''Exceeded expectations'') (PInt 3) (PInt beyond_int64)
            example_empty)"

text \<open>
  After \<open>Review.instance_from_db((2**63, 2022, "Exceeded expectations", 3))\<close> in the
  empty state: the tuple is hydrated and cached under a key that no row can have.
\<close>

definition example_cached_beyond :: world where
  "example_cached_beyond =
     snd (instance_from_db (beyond_int64, Some 2022, Some ''Exceeded expectations'', Some 3)
            example_empty)"


text \<open>
  A client program: create a review, try to set its year to 1999, change its summary,
  write it back, fetch it by id and through \<open>get_all\<close>, and hydrate a row by hand.
\<close>

definition example_calls :: "call list" where
  "example_calls =
     [Create (PInt 2022) (PStr ''Exceeded expectations'') (PInt 3),
      Set_year 0 (PInt 1999),
      Set_summary 0 (PStr ''Met expectations''),
      Update 0,
      Find_by_id 1,
      Get_all,
      Instance_from_db (1, Some 2024, Some ''Refreshed'', Some 3)]"

section \<open>Properties\<close>

lemmas setter_defs =
  id_setter_def year_setter_def summary_setter_def employee_id_setter_def employee_exists_def

lemmas getter_defs = year_getter_def summary_getter_def employee_id_getter_def

lemmas example_defs =
  example_empty_def example_review_def example_unsaved_def example_saved_def

lemma strip_spaces: "strip ''  '' = []"
  by (simp add: strip_def is_space_def)

lemma strip_example: "strip ''Exceeded expectations'' \<noteq> []"
  by (simp add: strip_def is_space_def)

lemma in_int64_small: "in_int64 3" "in_int64 4" "in_int64 1" "in_int64 2022" "in_int64 5"
  by (simp_all add: in_int64_def)

lemma not_in_int64_beyond: "\<not> in_int64 beyond_int64"
  by (simp add: in_int64_def beyond_int64_def)

lemma create_example:
  "create (sqlite_rowid give_up) (PInt 2022) (PStr ''Exceeded expectations'') (PInt 3) example_empty
     = (Inr 0, example_saved)"
  by (simp add: create_def new_Review_def init_def setter_defs save_def sqlite_rowid_def
      bindable_def in_int64_def example_defs strip_def is_space_def)

subsection \<open>save on a persisted instance\<close>

text \<open>
  C5. \<open>save()\<close> on an instance whose id is not \<open>None\<close> returns the instance and leaves
  the whole state as it was: no row is inserted, no commit is made, the cache and the
  instance are not modified.
\<close>

theorem save_persisted_noop:
  assumes "f_id (heap w ! self) \<noteq> None"
  shows "save rowid self w = (Inr self, w)"
  using assms by (simp add: save_def)

theorem save_persisted_noop_witness:
  "f_id (heap example_saved ! 0) \<noteq> None
   \<and> save (sqlite_rowid give_up) 0 example_saved = (Inr 0, example_saved)"
proof -
  have persisted: "f_id (heap example_saved ! 0) \<noteq> None"
    by (simp add: example_defs)
  show ?thesis
    using persisted save_persisted_noop [OF persisted, of "sqlite_rowid give_up"] by simp
qed

subsection \<open>delete\<close>

lemma delete_persisted:
  "f_id (heap w ! self) = Some k \<Longrightarrow> in_int64 k \<Longrightarrow>
   delete self w =
     (Inr (),
      w\<lparr>reviews := filter (\<lambda>r. fst r \<noteq> k) (reviews w),
        commits := commits w + 1,
        all := (all w)(k := None),
        heap := (heap w)[self := (heap w ! self)\<lparr>f_id := None\<rparr>]\<rparr>)"
  by (simp add: delete_def Let_def)

lemma delete_too_large:
  "f_id (heap w ! self) = Some k \<Longrightarrow> \<not> in_int64 k \<Longrightarrow> delete self w = (Inl int_too_large, w)"
  by (simp add: delete_def Let_def)

lemma example_huge_id_eq:
  "new_Review (PInt 2022) (PStr ''Exceeded expectations'') (PInt 3) (PInt beyond_int64) example_empty
     = (Inr 0, \<lparr>heap = [example_review\<lparr>f_id := Some beyond_int64\<rparr>], all = Map.empty, reviews = [],
                employees = [3], commits = 0\<rparr>)"
  by (simp add: new_Review_def init_def setter_defs in_int64_def example_defs
      strip_def is_space_def)

text \<open>
  C6, as the code has it. \<open>delete()\<close> on an instance whose id is \<open>None\<close> returns without
  an error and leaves the whole state (storage, cache, objects) as it was. On an instance
  whose id \<open>k\<close> fits SQLite's signed 64-bit INTEGER it returns without an error;
  afterwards the table holds the rows it held except those with id \<open>k\<close>, one commit was
  made, \<open>k\<close> is no key of the cache while the other keys are cached as before, and the
  instance has the id \<open>None\<close> and its other attributes as before; no other object is
  touched. On an instance whose id does not fit (the id setter accepts every integer)
  \<open>delete()\<close> raises OverflowError and leaves the whole state as it was, the id of the
  instance included.
\<close>

theorem delete_effect:
  assumes "self < length (heap w)"
  shows "(f_id (heap w ! self) = None \<longrightarrow> delete self w = (Inr (), w))
       \<and> (\<forall>k. f_id (heap w ! self) = Some k \<and> \<not> in_int64 k \<longrightarrow>
            delete self w = (Inl int_too_large, w))
       \<and> (\<forall>k. f_id (heap w ! self) = Some k \<and> in_int64 k \<longrightarrow>
            fst (delete self w) = Inr ()
          \<and> reviews (snd (delete self w)) = filter (\<lambda>r. fst r \<noteq> k) (reviews w)
          \<and> select_by_id (snd (delete self w)) k = None
          \<and> employees (snd (delete self w)) = employees w
          \<and> commits (snd (delete self w)) = commits w + 1
          \<and> all (snd (delete self w)) k = None
          \<and> (\<forall>j. j \<noteq> k \<longrightarrow> all (snd (delete self w)) j = all w j)
          \<and> heap (snd (delete self w)) ! self = (heap w ! self)\<lparr>f_id := None\<rparr>
          \<and> length (heap (snd (delete self w))) = length (heap w)
          \<and> (\<forall>other < length (heap w). other \<noteq> self \<longrightarrow>
                heap (snd (delete self w)) ! other = heap w ! other))"
  using assms
  by (auto simp: delete_persisted delete_too_large select_by_id_def find_None_iff)
    (simp add: delete_def)

theorem delete_effect_witness:
  "(0 < length (heap example_unsaved)
    \<and> f_id (heap example_unsaved ! 0) = None
    \<and> delete 0 example_unsaved = (Inr (), example_unsaved))
   \<and> (0 < length (heap example_huge_id)
    \<and> f_id (heap example_huge_id ! 0) = Some beyond_int64 \<and> \<not> in_int64 beyond_int64
    \<and> delete 0 example_huge_id = (Inl int_too_large, example_huge_id))
   \<and> (0 < length (heap example_saved)
    \<and> f_id (heap example_saved ! 0) = Some 1 \<and> in_int64 1
    \<and> fst (delete 0 example_saved) = Inr ()
    \<and> reviews (snd (delete 0 example_saved)) = []
    \<and> all (snd (delete 0 example_saved)) 1 = None
    \<and> heap (snd (delete 0 example_saved)) ! 0 = example_review)"
proof -
  have unsaved: "0 < length (heap example_unsaved)" "f_id (heap example_unsaved ! 0) = None"
    by (simp_all add: example_defs)
  have huge: "0 < length (heap example_huge_id)"
    "f_id (heap example_huge_id ! 0) = Some beyond_int64 \<and> \<not> in_int64 beyond_int64"
    by (simp_all add: example_huge_id_def example_huge_id_eq not_in_int64_beyond)
  have saved: "0 < length (heap example_saved)"
    "f_id (heap example_saved ! 0) = Some 1 \<and> in_int64 1"
    by (simp_all add: example_defs in_int64_small)
  have rows: "filter (\<lambda>r. fst r \<noteq> 1) (reviews example_saved) = []"
    and obj: "(heap example_saved ! 0)\<lparr>f_id := None\<rparr> = example_review"
    by (simp_all add: example_defs)
  note none = delete_effect [OF unsaved(1), THEN conjunct1, rule_format, OF unsaved(2)]
  note raised = delete_effect [OF huge(1), THEN conjunct2, THEN conjunct1, rule_format, OF huge(2)]
  note removed = delete_effect [OF saved(1), THEN conjunct2, THEN conjunct2, rule_format, OF saved(2)]
  have d1: "fst (delete 0 example_saved) = Inr ()"
    using removed by (rule conjunct1)
  have d2: "reviews (snd (delete 0 example_saved)) = []"
    using removed [THEN conjunct2, THEN conjunct1] rows by simp
  have d3: "all (snd (delete 0 example_saved)) 1 = None"
    using removed by simp
  have d4: "heap (snd (delete 0 example_saved)) ! 0 = example_review"
    using removed obj by simp
  from unsaved huge saved none raised d1 d2 d3 d4 show ?thesis
    by (simp only: simp_thms)
qed

text \<open>
  The claim as stated speaks of every instance with an id. After
  \<open>r = Review(2022, "Exceeded expectations", 3, id=2**63)\<close>, \<open>r.delete()\<close> raises
  OverflowError; the state is as before and the instance still has its id.
\<close>

theorem delete_overflow_counterexample:
  "fst (new_Review (PInt 2022) (PStr ''Exceeded expectations'') (PInt 3) (PInt beyond_int64)
         example_empty) = Inr 0
   \<and> f_id (heap example_huge_id ! 0) = Some beyond_int64
   \<and> fst (delete 0 example_huge_id) = Inl int_too_large
   \<and> snd (delete 0 example_huge_id) = example_huge_id
   \<and> exception_class int_too_large = ''OverflowError''"
  by (simp add: example_huge_id_def example_huge_id_eq delete_too_large not_in_int64_beyond
      int_too_large_def)

subsection \<open>The employee_id setter\<close>

text \<open>
  C4. The \<open>employee_id\<close> setter raises ValueError "employee_id must be an integer" when
  the value is not an integer. When the value is an integer that is the id of no row of
  the employees table as it is at the time of the assignment, the setter raises an error
  different from that one: ValueError "employee_id must reference a persisted Employee"
  when the lookup finds no row, and the OverflowError of the lookup itself when the
  integer does not fit SQLite's signed 64-bit INTEGER (no row can have such an id). When
  the value is an integer that fits and is the id of a row of the employees table, the
  assignment stores it.
\<close>

theorem employee_id_setter_errors:
  "(\<not> is_int v \<longrightarrow>
      employee_id_setter w v self = Inl (ValueError ''employee_id must be an integer''))
   \<and> (is_int v \<and> \<not> in_int64 (int_of v) \<longrightarrow> employee_id_setter w v self = Inl int_too_large)
   \<and> (is_int v \<and> in_int64 (int_of v) \<and> int_of v \<notin> set (employees w) \<longrightarrow>
      employee_id_setter w v self
        = Inl (ValueError ''employee_id must reference a persisted Employee''))
   \<and> (is_int v \<and> int_of v \<notin> set (employees w) \<longrightarrow>
      (\<exists>err. employee_id_setter w v self = Inl err
           \<and> err \<noteq> ValueError ''employee_id must be an integer''))
   \<and> (is_int v \<and> in_int64 (int_of v) \<and> int_of v \<in> set (employees w) \<longrightarrow>
      employee_id_setter w v self = Inr (self\<lparr>f_employee_id := Some (int_of v)\<rparr>))"
  by (simp add: employee_id_setter_def employee_exists_def int_too_large_def)

theorem employee_id_setter_errors_witness:
  "(\<not> is_int (PStr ''3'')
    \<and> employee_id_setter example_empty (PStr ''3'') example_review
        = Inl (ValueError ''employee_id must be an integer''))
   \<and> ((is_int (PInt beyond_int64) \<and> \<not> in_int64 (int_of (PInt beyond_int64)))
    \<and> employee_id_setter example_empty (PInt beyond_int64) example_review = Inl int_too_large)
   \<and> ((is_int (PInt 4) \<and> in_int64 (int_of (PInt 4))
        \<and> int_of (PInt 4) \<notin> set (employees example_empty))
    \<and> employee_id_setter example_empty (PInt 4) example_review
        = Inl (ValueError ''employee_id must reference a persisted Employee''))
   \<and> ((is_int (PInt beyond_int64) \<and> int_of (PInt beyond_int64) \<notin> set (employees example_empty))
    \<and> int_too_large \<noteq> ValueError ''employee_id must be an integer'')
   \<and> ((is_int (PInt 3) \<and> in_int64 (int_of (PInt 3))
        \<and> int_of (PInt 3) \<in> set (employees example_empty))
    \<and> employee_id_setter example_empty (PInt 3) example_review
        = Inr (example_review\<lparr>f_employee_id := Some (int_of (PInt 3))\<rparr>))"
proof -
  have not_int: "\<not> is_int (PStr ''3'')"
    by simp
  have huge: "is_int (PInt beyond_int64) \<and> \<not> in_int64 (int_of (PInt beyond_int64))"
    by (simp add: not_in_int64_beyond)
  have absent: "is_int (PInt 4) \<and> in_int64 (int_of (PInt 4))
      \<and> int_of (PInt 4) \<notin> set (employees example_empty)"
    by (simp add: example_empty_def in_int64_small)
  have no_row: "is_int (PInt beyond_int64) \<and> int_of (PInt beyond_int64) \<notin> set (employees example_empty)"
    by (simp add: example_empty_def beyond_int64_def)
  have present: "is_int (PInt 3) \<and> in_int64 (int_of (PInt 3))
      \<and> int_of (PInt 3) \<in> set (employees example_empty)"
    by (simp add: example_empty_def in_int64_small)
  note c1 = employee_id_setter_errors [of "PStr ''3''" example_empty example_review,
      THEN conjunct1, rule_format, OF not_int]
  note c2 = employee_id_setter_errors [of "PInt beyond_int64" example_empty example_review,
      THEN conjunct2, THEN conjunct1, rule_format, OF huge]
  note c3 = employee_id_setter_errors [of "PInt 4" example_empty example_review,
      THEN conjunct2, THEN conjunct2, THEN conjunct1, rule_format, OF absent]
  from employee_id_setter_errors [of "PInt beyond_int64" example_empty example_review,
      THEN conjunct2, THEN conjunct2, THEN conjunct2, THEN conjunct1, rule_format, OF no_row]
  obtain err where "employee_id_setter example_empty (PInt beyond_int64) example_review = Inl err"
    and "err \<noteq> ValueError ''employee_id must be an integer''"
    by blast
  with c2 have c4: "int_too_large \<noteq> ValueError ''employee_id must be an integer''"
    by simp
  note c5 = employee_id_setter_errors [of "PInt 3" example_empty example_review,
      THEN conjunct2, THEN conjunct2, THEN conjunct2, THEN conjunct2, rule_format, OF present]
  from not_int c1 huge c2 absent c3 no_row c4 present c5 show ?thesis
    by (simp only: simp_thms)
qed

subsection \<open>The summary setter\<close>



subsection \<open>update\<close>








lemma update_unpersisted:
  "f_id (heap w ! self) = None \<Longrightarrow>
   update self w = (Inl (ValueError ''cannot update a Review without an id''), w)"
  by (simp add: update_def)

lemma update_too_large:
  "f_id (heap w ! self) = Some k \<Longrightarrow>
   \<not> (bindable (f_year (heap w ! self)) \<and> bindable (f_employee_id (heap w ! self)) \<and> in_int64 k) \<Longrightarrow>
   update self w = (Inl int_too_large, w)"
  by (simp add: update_def Let_def)

lemma update_persisted:
  "f_id (heap w ! self) = Some k \<Longrightarrow>
   bindable (f_year (heap w ! self)) \<Longrightarrow> bindable (f_employee_id (heap w ! self)) \<Longrightarrow>
   in_int64 k \<Longrightarrow>
   update self w =
     (Inr (),
      w\<lparr>reviews := map (\<lambda>r. if fst r = k
                             then (k, f_year (heap w ! self), f_summary (heap w ! self),
                                   f_employee_id (heap w ! self))
                             else r) (reviews w),
        commits := commits w + 1,
        all := (all w)(k \<mapsto> self)\<rparr>)"
  by (simp add: update_def Let_def)




subsection \<open>create with rejected arguments\<close>

lemma init_unpersisted_year:
  "\<not> year_ok year \<Longrightarrow>
   init w year summary employee_id PNone =
     Inl (ValueError (if is_int year then ''year must be >= 2000'' else ''year must be an integer''))"
  by (auto simp: init_def id_setter_def year_setter_def year_ok_def)

lemma init_unpersisted_summary:
  "year_ok year \<Longrightarrow> \<not> summary_ok summary \<Longrightarrow>
   init w year summary employee_id PNone = Inl (ValueError ''summary must be a non-empty string'')"
  by (auto simp: init_def id_setter_def year_setter_def summary_setter_def year_ok_def
      summary_ok_def)

lemma init_unpersisted_employee_id:
  "year_ok year \<Longrightarrow> summary_ok summary \<Longrightarrow> \<not> employee_id_ok w employee_id \<Longrightarrow>
   init w year summary employee_id PNone =
     Inl (if \<not> is_int employee_id then ValueError ''employee_id must be an integer''
          else if \<not> in_int64 (int_of employee_id) then int_too_large
          else ValueError ''employee_id must reference a persisted Employee'')"
  by (auto simp: init_def setter_defs year_ok_def summary_ok_def employee_id_ok_def)

lemma init_invalid:
  "\<not> (year_ok year \<and> summary_ok summary \<and> employee_id_ok w employee_id) \<Longrightarrow>
   \<exists>err. init w year summary employee_id ident = Inl err"
  by (auto simp: init_def setter_defs year_ok_def summary_ok_def employee_id_ok_def)

lemma create_raises:
  "init w year summary employee_id PNone = Inl err \<Longrightarrow>
   create rowid year summary employee_id w = (Inl err, w)"
  by (simp add: create_def new_Review_def)

text \<open>
  C8, as the code has it. Whenever the year, the summary or the employee_id handed to
  \<open>create\<close> violates its constraint, \<open>create\<close> raises and the whole state is as it was
  before the call: no row was inserted (and nothing was committed or cached). The error
  is that of the first check that fails, in the order year, summary, employee_id. A year
  that is not an integer gives "year must be an integer", an integer year below 2000
  "year must be >= 2000"; with a valid year, a summary that is not a string or is empty
  after trimming gives "summary must be a non-empty string"; with those valid, an
  employee_id that is not an integer gives "employee_id must be an integer", and an
  integer that fits SQLite's signed 64-bit INTEGER and is the id of no row of the
  employees table gives "employee_id must reference a persisted Employee". An integer
  employee_id that does not fit makes the lookup raise OverflowError, not a validation
  error.
\<close>

theorem create_rejected_inserts_nothing:
  "(\<not> is_int year \<longrightarrow>
      create rowid year summary employee_id w = (Inl (ValueError ''year must be an integer''), w))
   \<and> (is_int year \<and> int_of year < 2000 \<longrightarrow>
      create rowid year summary employee_id w = (Inl (ValueError ''year must be >= 2000''), w))
   \<and> (year_ok year \<and> \<not> summary_ok summary \<longrightarrow>
      create rowid year summary employee_id w
        = (Inl (ValueError ''summary must be a non-empty string''), w))
   \<and> (year_ok year \<and> summary_ok summary \<and> \<not> is_int employee_id \<longrightarrow>
      create rowid year summary employee_id w
        = (Inl (ValueError ''employee_id must be an integer''), w))
   \<and> (year_ok year \<and> summary_ok summary \<and> is_int employee_id
        \<and> \<not> in_int64 (int_of employee_id) \<longrightarrow>
      create rowid year summary employee_id w = (Inl int_too_large, w))
   \<and> (year_ok year \<and> summary_ok summary \<and> is_int employee_id
        \<and> in_int64 (int_of employee_id) \<and> int_of employee_id \<notin> set (employees w) \<longrightarrow>
      create rowid year summary employee_id w
        = (Inl (ValueError ''employee_id must reference a persisted Employee''), w))
   \<and> (\<not> (year_ok year \<and> summary_ok summary \<and> employee_id_ok w employee_id) \<longrightarrow>
      (\<exists>err. create rowid year summary employee_id w = (Inl err, w)))"
proof (intro conjI impI)
  assume "\<not> (year_ok year \<and> summary_ok summary \<and> employee_id_ok w employee_id)"
  from init_invalid [OF this] obtain err where
    "init w year summary employee_id PNone = Inl err"
    by blast
  then have "create rowid year summary employee_id w = (Inl err, w)"
    by (rule create_raises)
  then show "\<exists>err. create rowid year summary employee_id w = (Inl err, w)" ..
next
  assume "\<not> is_int year"
  then show "create rowid year summary employee_id w
      = (Inl (ValueError ''year must be an integer''), w)"
    using init_unpersisted_year [of year w summary employee_id]
    by (simp add: create_raises year_ok_def)
next
  assume "is_int year \<and> int_of year < 2000"
  then show "create rowid year summary employee_id w
      = (Inl (ValueError ''year must be >= 2000''), w)"
    using init_unpersisted_year [of year w summary employee_id]
    by (simp add: create_raises year_ok_def)
next
  assume "year_ok year \<and> \<not> summary_ok summary"
  then show "create rowid year summary employee_id w
      = (Inl (ValueError ''summary must be a non-empty string''), w)"
    by (simp add: create_raises init_unpersisted_summary)
next
  assume "year_ok year \<and> summary_ok summary \<and> \<not> is_int employee_id"
  then show "create rowid year summary employee_id w
      = (Inl (ValueError ''employee_id must be an integer''), w)"
    using init_unpersisted_employee_id [of year summary w employee_id]
    by (simp add: create_raises employee_id_ok_def)
next
  assume "year_ok year \<and> summary_ok summary \<and> is_int employee_id
        \<and> \<not> in_int64 (int_of employee_id)"
  then show "create rowid year summary employee_id w = (Inl int_too_large, w)"
    by (simp add: create_def new_Review_def init_def setter_defs year_ok_def summary_ok_def)
next
  assume "year_ok year \<and> summary_ok summary \<and> is_int employee_id
        \<and> in_int64 (int_of employee_id) \<and> int_of employee_id \<notin> set (employees w)"
  then show "create rowid year summary employee_id w
      = (Inl (ValueError ''employee_id must reference a persisted Employee''), w)"
    using init_unpersisted_employee_id [of year summary w employee_id]
    by (simp add: create_raises employee_id_ok_def)
qed

theorem create_rejected_inserts_nothing_witness:
  "(\<not> is_int (PStr ''2022'')
    \<and> create (sqlite_rowid give_up) (PStr ''2022'') (PStr ''Exceeded expectations'') (PInt 3)
          example_empty
        = (Inl (ValueError ''year must be an integer''), example_empty))
   \<and> ((is_int (PInt 1999) \<and> int_of (PInt 1999) < 2000)
    \<and> create (sqlite_rowid give_up) (PInt 1999) (PStr ''Exceeded expectations'') (PInt 3)
          example_empty
        = (Inl (ValueError ''year must be >= 2000''), example_empty))
   \<and> ((year_ok (PInt 2022) \<and> \<not> summary_ok (PStr ''  ''))
    \<and> create (sqlite_rowid give_up) (PInt 2022) (PStr ''  '') (PInt 3) example_empty
        = (Inl (ValueError ''summary must be a non-empty string''), example_empty))
   \<and> ((year_ok (PInt 2022) \<and> summary_ok (PStr ''Exceeded expectations'') \<and> \<not> is_int (POther 0))
    \<and> create (sqlite_rowid give_up) (PInt 2022) (PStr ''Exceeded expectations'') (POther 0)
          example_empty
        = (Inl (ValueError ''employee_id must be an integer''), example_empty))
   \<and> ((year_ok (PInt 2022) \<and> summary_ok (PStr ''Exceeded expectations'')
        \<and> is_int (PInt beyond_int64) \<and> \<not> in_int64 (int_of (PInt beyond_int64)))
    \<and> create (sqlite_rowid give_up) (PInt 2022) (PStr ''Exceeded expectations'')
          (PInt beyond_int64) example_empty
        = (Inl int_too_large, example_empty))
   \<and> ((year_ok (PInt 2022) \<and> summary_ok (PStr ''Exceeded expectations'') \<and> is_int (PInt 4)
        \<and> in_int64 (int_of (PInt 4)) \<and> int_of (PInt 4) \<notin> set (employees example_empty))
    \<and> create (sqlite_rowid give_up) (PInt 2022) (PStr ''Exceeded expectations'') (PInt 4)
          example_empty
        = (Inl (ValueError ''employee_id must reference a persisted Employee''), example_empty))
   \<and> (\<not> (year_ok (PInt 1999) \<and> summary_ok (PStr ''  '')
          \<and> employee_id_ok example_empty (PInt 4))
    \<and> (\<exists>err. create (sqlite_rowid give_up) (PInt 1999) (PStr ''  '') (PInt 4) example_empty
                = (Inl err, example_empty)))"
proof -
  let ?rowid = "sqlite_rowid give_up"
  have year_type: "\<not> is_int (PStr ''2022'')"
    by simp
  have year_range: "is_int (PInt 1999) \<and> int_of (PInt 1999) < 2000"
    by simp
  have summary: "year_ok (PInt 2022) \<and> \<not> summary_ok (PStr ''  '')"
    by (simp add: year_ok_def summary_ok_def strip_spaces)
  have employee_type:
    "year_ok (PInt 2022) \<and> summary_ok (PStr ''Exceeded expectations'') \<and> \<not> is_int (POther 0)"
    by (simp add: year_ok_def summary_ok_def strip_example)
  have employee_huge:
    "year_ok (PInt 2022) \<and> summary_ok (PStr ''Exceeded expectations'')
        \<and> is_int (PInt beyond_int64) \<and> \<not> in_int64 (int_of (PInt beyond_int64))"
    by (simp add: year_ok_def summary_ok_def strip_example not_in_int64_beyond)
  have employee_row:
    "year_ok (PInt 2022) \<and> summary_ok (PStr ''Exceeded expectations'') \<and> is_int (PInt 4)
        \<and> in_int64 (int_of (PInt 4)) \<and> int_of (PInt 4) \<notin> set (employees example_empty)"
    by (simp add: year_ok_def summary_ok_def strip_example example_empty_def in_int64_small)
  have rejected: "\<not> (year_ok (PInt 1999) \<and> summary_ok (PStr ''  '')
      \<and> employee_id_ok example_empty (PInt 4))"
    by (simp add: year_ok_def)
  note c1 = create_rejected_inserts_nothing
    [of "PStr ''2022''" ?rowid "PStr ''Exceeded expectations''" "PInt 3" example_empty,
      THEN conjunct1, rule_format, OF year_type]
  note c2 = create_rejected_inserts_nothing
    [of "PInt 1999" ?rowid "PStr ''Exceeded expectations''" "PInt 3" example_empty,
      THEN conjunct2, THEN conjunct1, rule_format, OF year_range]
  note c3 = create_rejected_inserts_nothing
    [of "PInt 2022" ?rowid "PStr ''  ''" "PInt 3" example_empty,
      THEN conjunct2, THEN conjunct2, THEN conjunct1, rule_format, OF summary]
  note c4 = create_rejected_inserts_nothing
    [of "PInt 2022" ?rowid "PStr ''Exceeded expectations''" "POther 0" example_empty,
      THEN conjunct2, THEN conjunct2, THEN conjunct2, THEN conjunct1, rule_format,
      OF employee_type]
  note c5 = create_rejected_inserts_nothing
    [of "PInt 2022" ?rowid "PStr ''Exceeded expectations''" "PInt beyond_int64" example_empty,
      THEN conjunct2, THEN conjunct2, THEN conjunct2, THEN conjunct2, THEN conjunct1,
      rule_format, OF employee_huge]
  note c6 = create_rejected_inserts_nothing
    [of "PInt 2022" ?rowid "PStr ''Exceeded expectations''" "PInt 4" example_empty,
      THEN conjunct2, THEN conjunct2, THEN conjunct2, THEN conjunct2, THEN conjunct2,
      THEN conjunct1, rule_format, OF employee_row]
  note c7 = create_rejected_inserts_nothing
    [of "PInt 1999" ?rowid "PStr ''  ''" "PInt 4" example_empty,
      THEN conjunct2, THEN conjunct2, THEN conjunct2, THEN conjunct2, THEN conjunct2,
      THEN conjunct2, rule_format, OF rejected]
  from year_type c1 year_range c2 summary c3 employee_type c4 employee_huge c5
    employee_row c6 rejected c7
  show ?thesis
    by (simp only: simp_thms)
qed

text \<open>
  The claim as stated asks for the error that corresponds to the violated constraint.
  With one employee, whose id is 3, \<open>Review.create(2022, "Exceeded expectations", 2**63)\<close>
  has an employee_id that references no employee; it raises the OverflowError of the
  lookup, not the ValueError "employee_id must reference a persisted Employee". No row
  is inserted.
\<close>

theorem create_overflow_counterexample:
  "\<not> employee_id_ok example_empty (PInt beyond_int64)
   \<and> create (sqlite_rowid give_up) (PInt 2022) (PStr ''Exceeded expectations'')
        (PInt beyond_int64) example_empty
       = (Inl int_too_large, example_empty)
   \<and> int_too_large \<noteq> ValueError ''employee_id must reference a persisted Employee''
   \<and> exception_class int_too_large = ''OverflowError''"
  by (simp add: employee_id_ok_def create_def new_Review_def init_def setter_defs
      not_in_int64_beyond strip_example int_too_large_def)
    (simp add: example_empty_def beyond_int64_def)

subsection \<open>Fetching a cached id\<close>

lemma instance_from_db_cached:
  "all w k = Some review \<Longrightarrow>
   instance_from_db (k, year, summary, employee_id) w =
     (Inr review,
      w\<lparr>heap := (heap w)[review := (heap w ! review)
           \<lparr>f_year := year, f_summary := summary, f_employee_id := employee_id\<rparr>]\<rparr>)"
  by (simp add: instance_from_db_def)

lemma find_by_id_cached:
  "all w k = Some review \<Longrightarrow> in_int64 k \<Longrightarrow>
   find (\<lambda>r. fst r = k) (reviews w) = Some (k, year, summary, employee_id) \<Longrightarrow>
   find_by_id k w =
     (Inr (Some review),
      w\<lparr>heap := (heap w)[review := (heap w ! review)
           \<lparr>f_year := year, f_summary := summary, f_employee_id := employee_id\<rparr>]\<rparr>)"
  by (simp add: find_by_id_def select_by_id_def instance_from_db_cached)

lemma find_by_id_no_row:
  "in_int64 k \<Longrightarrow> select_by_id w k = None \<Longrightarrow> find_by_id k w = (Inr None, w)"
  by (simp add: find_by_id_def)

lemma find_by_id_too_large: "\<not> in_int64 k \<Longrightarrow> find_by_id k w = (Inl int_too_large, w)"
  by (simp add: find_by_id_def)

lemma example_orphan_eq:
  "example_orphan =
     \<lparr>heap = [example_review\<lparr>f_id := Some 5\<rparr>], all = [5 \<mapsto> 0], reviews = [],
      employees = [3], commits = 1\<rparr>"
  by (simp add: example_orphan_def update_def new_Review_def init_def setter_defs example_defs
      bindable_def in_int64_def strip_def is_space_def)

lemma example_cached_beyond_eq:
  "example_cached_beyond =
     \<lparr>heap = [example_review\<lparr>f_id := Some beyond_int64\<rparr>], all = [beyond_int64 \<mapsto> 0],
      reviews = [], employees = [3], commits = 0\<rparr>"
  by (simp add: example_cached_beyond_def instance_from_db_def new_Review_def init_def
      setter_defs example_defs in_int64_def strip_def is_space_def)

text \<open>
  C1, as the code has it. Let the id \<open>k\<close> be cached. \<open>instance_from_db\<close> on a row with
  id \<open>k\<close> returns the cached reference and overwrites the year, summary and employee_id
  of that object with the values of the row, whatever they are; the id of the object, the
  cache and the table stay as they are. When \<open>k\<close> fits SQLite's signed 64-bit INTEGER and
  the table holds a row with id \<open>k\<close>, \<open>find_by_id(k)\<close> does the same with that row; a
  second \<open>find_by_id(k)\<close> returns the same reference again and leaves the object with the
  values the row has at that time, also when the row was changed in storage between the
  two calls. When \<open>k\<close> fits and the table holds no row with id \<open>k\<close>, \<open>find_by_id(k)\<close>
  returns \<open>None\<close> and changes nothing: the cache alone does not make an id found. When
  \<open>k\<close> does not fit, \<open>find_by_id(k)\<close> raises OverflowError and changes nothing.
\<close>

theorem cached_fetch_same_reference:
  assumes "all w k = Some review" and "review < length (heap w)"
  shows "(\<forall>year summary employee_id.
            fst (instance_from_db (k, year, summary, employee_id) w) = Inr review
          \<and> heap (snd (instance_from_db (k, year, summary, employee_id) w)) ! review
              = (heap w ! review)\<lparr>f_year := year, f_summary := summary, f_employee_id := employee_id\<rparr>
          \<and> all (snd (instance_from_db (k, year, summary, employee_id) w)) = all w
          \<and> reviews (snd (instance_from_db (k, year, summary, employee_id) w)) = reviews w)
       \<and> (\<forall>year summary employee_id.
            in_int64 k \<and> select_by_id w k = Some (k, year, summary, employee_id) \<longrightarrow>
              fst (find_by_id k w) = Inr (Some review)
            \<and> heap (snd (find_by_id k w)) ! review
                = (heap w ! review)\<lparr>f_year := year, f_summary := summary, f_employee_id := employee_id\<rparr>
            \<and> all (snd (find_by_id k w)) = all w
            \<and> reviews (snd (find_by_id k w)) = reviews w)
       \<and> (\<forall>year summary employee_id rows year' summary' employee_id'.
            in_int64 k \<and> select_by_id w k = Some (k, year, summary, employee_id)
            \<and> select_by_id (snd (find_by_id k w)\<lparr>reviews := rows\<rparr>) k
                = Some (k, year', summary', employee_id') \<longrightarrow>
              fst (find_by_id k (snd (find_by_id k w)\<lparr>reviews := rows\<rparr>)) = Inr (Some review)
            \<and> heap (snd (find_by_id k (snd (find_by_id k w)\<lparr>reviews := rows\<rparr>))) ! review
                = (heap w ! review)\<lparr>f_year := year', f_summary := summary', f_employee_id := employee_id'\<rparr>)
       \<and> (in_int64 k \<and> select_by_id w k = None \<longrightarrow> find_by_id k w = (Inr None, w))
       \<and> (\<not> in_int64 k \<longrightarrow> find_by_id k w = (Inl int_too_large, w))"
proof (intro conjI allI impI)
  fix year summary employee_id rows year' summary' employee_id'
  assume rows: "in_int64 k \<and> select_by_id w k = Some (k, year, summary, employee_id)
            \<and> select_by_id (snd (find_by_id k w)\<lparr>reviews := rows\<rparr>) k
                = Some (k, year', summary', employee_id')"
  let ?w1 = "w\<lparr>heap := (heap w)[review := (heap w ! review)
           \<lparr>f_year := year, f_summary := summary, f_employee_id := employee_id\<rparr>]\<rparr>"
  from rows assms(1) have first: "find_by_id k w = (Inr (Some review), ?w1)"
    by (simp add: find_by_id_cached select_by_id_def)
  have cached: "all (?w1\<lparr>reviews := rows\<rparr>) k = Some review"
    using assms(1) by simp
  from rows have fits: "in_int64 k"
    by simp
  from rows first
  have stored: "find (\<lambda>r. fst r = k) (reviews (?w1\<lparr>reviews := rows\<rparr>))
      = Some (k, year', summary', employee_id')"
    by (simp add: select_by_id_def)
  from find_by_id_cached [OF cached fits stored] first assms(2)
  show "fst (find_by_id k (snd (find_by_id k w)\<lparr>reviews := rows\<rparr>)) = Inr (Some review)"
    and "heap (snd (find_by_id k (snd (find_by_id k w)\<lparr>reviews := rows\<rparr>))) ! review
          = (heap w ! review)\<lparr>f_year := year', f_summary := summary', f_employee_id := employee_id'\<rparr>"
    by simp_all
qed (use assms in \<open>simp_all add: instance_from_db_cached find_by_id_cached find_by_id_no_row
       find_by_id_too_large select_by_id_def\<close>)

theorem cached_fetch_same_reference_witness:
  "(all example_saved 1 = Some 0 \<and> 0 < length (heap example_saved) \<and> in_int64 1)
   \<and> select_by_id example_saved 1 = Some (1, Some 2022, Some ''Exceeded expectations'', Some 3)
   \<and> select_by_id (snd (find_by_id 1 example_saved)\<lparr>reviews := [(1, Some 2023, Some ''Met expectations'', Some 3)]\<rparr>) 1
       = Some (1, Some 2023, Some ''Met expectations'', Some 3)
   \<and> fst (find_by_id 1 example_saved) = Inr (Some 0)
   \<and> fst (find_by_id 1
        (snd (find_by_id 1 example_saved)\<lparr>reviews := [(1, Some 2023, Some ''Met expectations'', Some 3)]\<rparr>))
       = Inr (Some 0)
   \<and> heap (snd (find_by_id 1
        (snd (find_by_id 1 example_saved)\<lparr>reviews := [(1, Some 2023, Some ''Met expectations'', Some 3)]\<rparr>))) ! 0
       = \<lparr>f_id = Some 1, f_year = Some 2023, f_summary = Some ''Met expectations'',
          f_employee_id = Some 3\<rparr>
   \<and> (all example_orphan 5 = Some 0 \<and> 0 < length (heap example_orphan) \<and> in_int64 5
      \<and> select_by_id example_orphan 5 = None
      \<and> find_by_id 5 example_orphan = (Inr None, example_orphan))
   \<and> (all example_cached_beyond beyond_int64 = Some 0 \<and> 0 < length (heap example_cached_beyond)
      \<and> \<not> in_int64 beyond_int64
      \<and> find_by_id beyond_int64 example_cached_beyond = (Inl int_too_large, example_cached_beyond))"
proof -
  let ?rows = "[(1, Some 2023, Some ''Met expectations'', Some 3)]"
  have cached: "all example_saved 1 = Some 0" and on_heap: "0 < length (heap example_saved)"
    by (simp_all add: example_defs)
  have fits: "in_int64 1" "in_int64 5"
    by (simp_all add: in_int64_def)
  have stored: "select_by_id example_saved 1
      = Some (1, Some 2022, Some ''Exceeded expectations'', Some 3)"
    by (simp add: select_by_id_def example_defs)
  have changed: "select_by_id (snd (find_by_id 1 example_saved)\<lparr>reviews := ?rows\<rparr>) 1
      = Some (1, Some 2023, Some ''Met expectations'', Some 3)"
    by (simp add: select_by_id_def)
  note fetch = cached_fetch_same_reference [OF cached on_heap]
  have once: "fst (find_by_id 1 example_saved) = Inr (Some 0)"
    using fetch [THEN conjunct2, THEN conjunct1, rule_format, OF conjI [OF fits(1) stored]]
    by (rule conjunct1)
  have twice:
    "fst (find_by_id 1 (snd (find_by_id 1 example_saved)\<lparr>reviews := ?rows\<rparr>)) = Inr (Some 0)
     \<and> heap (snd (find_by_id 1 (snd (find_by_id 1 example_saved)\<lparr>reviews := ?rows\<rparr>))) ! 0
       = (heap example_saved ! 0)\<lparr>f_year := Some 2023, f_summary := Some ''Met expectations'',
            f_employee_id := Some 3\<rparr>"
    using fetch [THEN conjunct2, THEN conjunct2, THEN conjunct1, rule_format,
        OF conjI [OF fits(1) conjI [OF stored changed]]] .
  have obj: "(heap example_saved ! 0)\<lparr>f_year := Some 2023, f_summary := Some ''Met expectations'',
            f_employee_id := Some 3\<rparr>
      = \<lparr>f_id = Some 1, f_year = Some 2023, f_summary = Some ''Met expectations'',
          f_employee_id = Some 3\<rparr>"
    by (simp add: example_defs)
  have orphan: "all example_orphan 5 = Some 0" "0 < length (heap example_orphan)"
    "select_by_id example_orphan 5 = None"
    by (simp_all add: example_orphan_eq select_by_id_def)
  have not_found: "find_by_id 5 example_orphan = (Inr None, example_orphan)"
    using cached_fetch_same_reference [OF orphan(1,2), THEN conjunct2, THEN conjunct2,
        THEN conjunct2, THEN conjunct1, rule_format, OF conjI [OF fits(2) orphan(3)]] .
  have beyond: "all example_cached_beyond beyond_int64 = Some 0"
    "0 < length (heap example_cached_beyond)"
    by (simp_all add: example_cached_beyond_eq)
  have raised: "find_by_id beyond_int64 example_cached_beyond
      = (Inl int_too_large, example_cached_beyond)"
    using cached_fetch_same_reference [OF beyond, THEN conjunct2, THEN conjunct2,
        THEN conjunct2, THEN conjunct2, rule_format, OF not_in_int64_beyond] .
  from twice obj have twice':
    "fst (find_by_id 1 (snd (find_by_id 1 example_saved)\<lparr>reviews := ?rows\<rparr>)) = Inr (Some 0)"
    "heap (snd (find_by_id 1 (snd (find_by_id 1 example_saved)\<lparr>reviews := ?rows\<rparr>))) ! 0
       = \<lparr>f_id = Some 1, f_year = Some 2023, f_summary = Some ''Met expectations'',
          f_employee_id = Some 3\<rparr>"
    by simp_all
  note facts = cached on_heap fits(1) stored changed once twice' orphan(1) orphan(2) fits(2)
    orphan(3) not_found beyond not_in_int64_beyond raised
  show ?thesis
    by (intro conjI) (rule facts)+
qed

text \<open>
  The claim as stated speaks of every cached id. After
  \<open>r = Review(2022, "Exceeded expectations", 3, id=5)\<close> and \<open>r.update()\<close> the id 5 is
  cached and the table is empty: \<open>find_by_id(5)\<close> returns \<open>None\<close>, not the cached
  object, and overwrites nothing.
\<close>

theorem cached_without_row_counterexample:
  "all example_orphan 5 = Some 0
   \<and> fst (find_by_id 5 example_orphan) = Inr None
   \<and> snd (find_by_id 5 example_orphan) = example_orphan"
  by (simp add: example_orphan_eq find_by_id_def select_by_id_def in_int64_def)

subsection \<open>delete, then save again\<close>




lemma save_unpersisted:
  "f_id (heap w ! self) = None \<Longrightarrow>
   bindable (f_year (heap w ! self)) \<Longrightarrow> bindable (f_employee_id (heap w ! self)) \<Longrightarrow>
   rowid (map fst (reviews w)) = Some k \<Longrightarrow>
   save rowid self w =
     (Inr self,
      w\<lparr>reviews := reviews w @ [(k, f_year (heap w ! self), f_summary (heap w ! self),
                                  f_employee_id (heap w ! self))],
        commits := commits w + 1,
        heap := (heap w)[self := (heap w ! self)\<lparr>f_id := Some k\<rparr>],
        all := (all w)(k \<mapsto> self)\<rparr>)"
  by (simp add: save_def Let_def)


lemma save_no_key:
  "f_id (heap w ! self) = None \<Longrightarrow>
   bindable (f_year (heap w ! self)) \<Longrightarrow> bindable (f_employee_id (heap w ! self)) \<Longrightarrow>
   rowid (map fst (reviews w)) = None \<Longrightarrow>
   save rowid self w = (Inl (OperationalError ''database or disk is full''), w)"
  by (simp add: save_def Let_def)





subsection \<open>Hydrating a row that is not cached\<close>

lemma instance_from_db_uncached:
  "all w rid = None \<Longrightarrow>
   instance_from_db (rid, year, summary, employee_id) w =
     (case init w (py_int year) (py_str summary) (py_int employee_id) (PInt rid) of
        Inl err \<Rightarrow> (Inl err, w)
      | Inr obj \<Rightarrow>
          (Inr (length (heap w)),
           w\<lparr>heap := heap w @ [obj], all := (all w)(rid \<mapsto> length (heap w))\<rparr>))"
  by (simp add: instance_from_db_def new_Review_def split: sum.splits)







lemma instance_from_db_frame:
  assumes "instance_from_db r w = (res, w')"
  shows "employees w' = employees w" and "reviews w' = reviews w"
    and "j \<noteq> fst r \<Longrightarrow> all w' j = all w j"
  using assms
  by (auto simp: instance_from_db_def new_Review_def split: prod.splits option.splits sum.splits)

lemma valid_row_employees: "employees w' = employees w \<Longrightarrow> valid_row w' r = valid_row w r"
  by (simp add: valid_row_def employee_id_ok_def split: prod.splits)






subsection \<open>Validity of the instances in memory\<close>

lemma all_validI:
  "(\<And>obj. obj \<in> set (heap w) \<Longrightarrow> valid_review w obj) \<Longrightarrow>
   (\<And>r. r \<in> set (reviews w) \<Longrightarrow> valid_row w r) \<Longrightarrow> all_valid w"
  by (simp add: all_valid_def)

lemma all_valid_heap: "all_valid w \<Longrightarrow> obj \<in> set (heap w) \<Longrightarrow> valid_review w obj"
  by (simp add: all_valid_def)

lemma all_valid_rows: "all_valid w \<Longrightarrow> r \<in> set (reviews w) \<Longrightarrow> valid_row w r"
  by (simp add: all_valid_def)

lemma id_setter_valid:
  "id_setter v obj = Inr obj' \<Longrightarrow> valid_review w obj' = valid_review w obj"
  by (auto simp: id_setter_def valid_review_def getter_defs split: if_splits)

lemma year_setter_ok:
  "year_setter v obj = Inr obj' \<Longrightarrow> year_ok v \<and> obj' = obj\<lparr>f_year := Some (int_of v)\<rparr>"
  by (auto simp: year_setter_def year_ok_def split: if_splits)

lemma summary_setter_ok:
  "summary_setter v obj = Inr obj' \<Longrightarrow> summary_ok v \<and> obj' = obj\<lparr>f_summary := Some (str_of v)\<rparr>"
  by (auto simp: summary_setter_def summary_ok_def split: if_splits)

lemma employee_id_setter_ok:
  "employee_id_setter w v obj = Inr obj' \<Longrightarrow>
   employee_id_ok w v \<and> obj' = obj\<lparr>f_employee_id := Some (int_of v)\<rparr>"
  by (auto simp: employee_id_setter_def employee_exists_def employee_id_ok_def split: if_splits)

lemma init_ok:
  assumes "init w year summary employee_id ident = Inr obj"
  shows "valid_review w obj"
proof -
  from assms obtain o1 o2 o3 where
    "year_setter year o1 = Inr o2" "summary_setter summary o2 = Inr o3"
    "employee_id_setter w employee_id o3 = Inr obj"
    by (auto simp: init_def split: sum.splits)
  then show ?thesis
    using year_setter_ok [of year o1 o2] summary_setter_ok [of summary o2 o3]
      employee_id_setter_ok [of w employee_id o3 obj]
    by (simp add: valid_review_def getter_defs year_ok_def summary_ok_def employee_id_ok_def)
qed

lemma stored_row_valid:
  "valid_review w obj \<Longrightarrow> valid_row w (k, f_year obj, f_summary obj, f_employee_id obj)"
  by (simp add: valid_review_def valid_row_def getter_defs)

lemma valid_review_id: "valid_review w (obj\<lparr>f_id := x\<rparr>) = valid_review w obj"
  by (simp add: valid_review_def getter_defs)

lemma set_update_cases: "x \<in> set (xs[i := y]) \<Longrightarrow> x = y \<or> x \<in> set xs"
  using set_update_subset_insert [of xs i y] by auto

lemma find_by_id_world:
  "snd (find_by_id i w) =
     (if \<not> in_int64 i then w
      else case select_by_id w i of None \<Rightarrow> w | Some r \<Rightarrow> snd (instance_from_db r w))"
  by (simp add: find_by_id_def split: option.splits prod.splits sum.splits)

lemma hydrate_world:
  "snd (hydrate (r # rs) w) =
     (case fst (instance_from_db r w) of
        Inl err \<Rightarrow> snd (instance_from_db r w)
      | Inr review \<Rightarrow> snd (hydrate rs (snd (instance_from_db r w))))"
  by (simp split: prod.splits sum.splits)

lemma create_world:
  "snd (create rowid year summary employee_id w) =
     (case fst (new_Review year summary employee_id PNone w) of
        Inl err \<Rightarrow> w
      | Inr self \<Rightarrow> snd (save rowid self (snd (new_Review year summary employee_id PNone w))))"
  by (simp add: create_def new_Review_def split: prod.splits sum.splits)

lemma year_setter_valid:
  "valid_review w obj \<Longrightarrow> year_setter v obj = Inr obj' \<Longrightarrow> valid_review w obj'"
  by (auto dest: year_setter_ok simp: valid_review_def getter_defs year_ok_def)

lemma summary_setter_valid:
  "valid_review w obj \<Longrightarrow> summary_setter v obj = Inr obj' \<Longrightarrow> valid_review w obj'"
  by (auto dest: summary_setter_ok simp: valid_review_def getter_defs summary_ok_def)

lemma employee_id_setter_valid:
  "valid_review w obj \<Longrightarrow> employee_id_setter w v obj = Inr obj' \<Longrightarrow> valid_review w obj'"
  by (auto dest: employee_id_setter_ok simp: valid_review_def getter_defs employee_id_ok_def)

lemma new_Review_valid:
  assumes "all_valid w"
  shows "all_valid (snd (new_Review year summary employee_id ident w))"
proof (cases "init w year summary employee_id ident")
  case (Inl err)
  with assms show ?thesis by (simp add: new_Review_def)
next
  case (Inr obj)
  let ?w' = "w\<lparr>heap := heap w @ [obj]\<rparr>"
  have "all_valid ?w'"
  proof (rule all_validI)
    fix obj' assume "obj' \<in> set (heap ?w')"
    then have "obj' = obj \<or> obj' \<in> set (heap w)"
      by auto
    with all_valid_heap [OF assms] init_ok [OF Inr] have "valid_review w obj'"
      by blast
    then show "valid_review ?w' obj'"
      by (simp add: valid_review_def employee_id_ok_def)
  next
    fix r assume "r \<in> set (reviews ?w')"
    with assms have "valid_row w r"
      by (simp add: all_valid_rows)
    then show "valid_row ?w' r"
      by (simp add: valid_row_def employee_id_ok_def split: prod.splits)
  qed
  with Inr show ?thesis by (simp add: new_Review_def)
qed

lemma new_Review_result:
  "new_Review year summary employee_id ident w = (Inr self, w') \<Longrightarrow>
   self < length (heap w') \<and> employees w' = employees w"
  by (auto simp: new_Review_def split: sum.splits)

lemma assign_valid:
  assumes "all_valid w" and "self < length (heap w)"
    and "\<And>obj'. setter (heap w ! self) = Inr obj' \<Longrightarrow> valid_review w obj'"
  shows "all_valid (snd (assign setter self w))"
proof (cases "setter (heap w ! self)")
  case (Inl err)
  with assms(1) show ?thesis by (simp add: assign_def)
next
  case (Inr obj')
  let ?w' = "w\<lparr>heap := (heap w)[self := obj']\<rparr>"
  have "all_valid ?w'"
  proof (rule all_validI)
    fix obj assume "obj \<in> set (heap ?w')"
    then have "obj = obj' \<or> obj \<in> set (heap w)"
      by (simp add: set_update_cases)
    with all_valid_heap [OF assms(1)] assms(3) [OF Inr] have "valid_review w obj"
      by blast
    then show "valid_review ?w' obj"
      by (simp add: valid_review_def employee_id_ok_def)
  next
    fix r assume "r \<in> set (reviews ?w')"
    with assms(1) have "valid_row w r"
      by (simp add: all_valid_rows)
    then show "valid_row ?w' r"
      by (simp add: valid_row_def employee_id_ok_def split: prod.splits)
  qed
  with Inr show ?thesis by (simp add: assign_def)
qed

lemma save_valid:
  assumes "all_valid w" and "self < length (heap w)"
  shows "all_valid (snd (save rowid self w))"
proof (cases "f_id (heap w ! self) = None \<and> bindable (f_year (heap w ! self))
    \<and> bindable (f_employee_id (heap w ! self))")
  case False
  with assms(1) show ?thesis by (auto simp: save_def Let_def)
next
  case bound: True
  show ?thesis
  proof (cases "rowid (map fst (reviews w))")
    case None
    with bound assms(1) show ?thesis by (simp add: save_no_key)
  next
    case (Some k)
    let ?obj = "heap w ! self"
    let ?row = "(k, f_year ?obj, f_summary ?obj, f_employee_id ?obj)"
    let ?w' = "w\<lparr>reviews := reviews w @ [?row], commits := commits w + 1,
        heap := (heap w)[self := ?obj\<lparr>f_id := Some k\<rparr>], all := (all w)(k \<mapsto> self)\<rparr>"
    from assms have obj: "valid_review w ?obj"
      by (simp add: all_valid_heap)
    have "all_valid ?w'"
    proof (rule all_validI)
      fix obj assume "obj \<in> set (heap ?w')"
      then have "obj = ?obj\<lparr>f_id := Some k\<rparr> \<or> obj \<in> set (heap w)"
        by (simp add: set_update_cases)
      with all_valid_heap [OF assms(1)] obj have "valid_review w obj"
        by (auto simp: valid_review_id)
      then show "valid_review ?w' obj"
        by (simp add: valid_review_def employee_id_ok_def)
    next
      fix r assume "r \<in> set (reviews ?w')"
      then have "r = ?row \<or> r \<in> set (reviews w)"
        by auto
      with all_valid_rows [OF assms(1)] stored_row_valid [OF obj] have "valid_row w r"
        by blast
      then show "valid_row ?w' r"
        by (simp add: valid_row_def employee_id_ok_def split: prod.splits)
    qed
    with bound Some show ?thesis by (simp add: save_unpersisted)
  qed
qed

lemma create_valid:
  assumes "all_valid w"
  shows "all_valid (snd (create rowid year summary employee_id w))"
proof (cases "new_Review year summary employee_id PNone w")
  case (Pair res w')
  from new_Review_valid [OF assms, of year summary employee_id PNone] Pair
  have valid: "all_valid w'"
    by simp
  show ?thesis
  proof (cases res)
    case (Inl err)
    with Pair valid show ?thesis by (simp add: create_def)
  next
    case (Inr self)
    with Pair new_Review_result have "self < length (heap w')"
      by blast
    from save_valid [OF valid this] Pair Inr show ?thesis
      by (simp add: create_def)
  qed
qed

lemma instance_from_db_valid:
  assumes "all_valid w" and "valid_row w r"
  shows "all_valid (snd (instance_from_db r w))"
proof -
  obtain rid year summary employee_id where r: "r = (rid, year, summary, employee_id)"
    by (cases r)
  show ?thesis
  proof (cases "all w rid")
    case None
    show ?thesis
    proof (cases "init w (py_int year) (py_str summary) (py_int employee_id) (PInt rid)")
      case (Inl err)
      with None r assms(1) show ?thesis
        by (simp add: instance_from_db_uncached)
    next
      case (Inr obj)
      let ?w' = "w\<lparr>heap := heap w @ [obj], all := (all w)(rid \<mapsto> length (heap w))\<rparr>"
      have "all_valid ?w'"
      proof (rule all_validI)
        fix obj' assume "obj' \<in> set (heap ?w')"
        with all_valid_heap [OF assms(1)] init_ok [OF Inr] have "valid_review w obj'"
          by auto
        then show "valid_review ?w' obj'"
          by (simp add: valid_review_def employee_id_ok_def)
      next
        fix r' assume "r' \<in> set (reviews ?w')"
        with assms(1) have "valid_row w r'"
          by (simp add: all_valid_rows)
        then show "valid_row ?w' r'"
          by (simp add: valid_row_def employee_id_ok_def split: prod.splits)
      qed
      with None r Inr show ?thesis
        by (simp add: instance_from_db_uncached)
    qed
  next
    case (Some review)
    let ?obj = "(heap w ! review)\<lparr>f_year := year, f_summary := summary, f_employee_id := employee_id\<rparr>"
    let ?w' = "w\<lparr>heap := (heap w)[review := ?obj]\<rparr>"
    from assms(2) r have refreshed: "valid_review w ?obj"
      by (simp add: valid_row_def valid_review_def getter_defs)
    have "all_valid ?w'"
    proof (rule all_validI)
      fix obj assume "obj \<in> set (heap ?w')"
      then have "obj = ?obj \<or> obj \<in> set (heap w)"
        by (simp add: set_update_cases)
      with all_valid_heap [OF assms(1)] refreshed have "valid_review w obj"
        by blast
      then show "valid_review ?w' obj"
        by (simp add: valid_review_def employee_id_ok_def)
    next
      fix r' assume "r' \<in> set (reviews ?w')"
      with assms(1) have "valid_row w r'"
        by (simp add: all_valid_rows)
      then show "valid_row ?w' r'"
        by (simp add: valid_row_def employee_id_ok_def split: prod.splits)
    qed
    with Some r show ?thesis
      by (simp add: instance_from_db_cached)
  qed
qed

lemma find_by_id_valid:
  assumes "all_valid w"
  shows "all_valid (snd (find_by_id i w))"
proof (cases "select_by_id w i")
  case None
  with assms show ?thesis by (simp add: find_by_id_world)
next
  case (Some r)
  then have "r \<in> set (reviews w)"
    by (auto simp: select_by_id_def find_Some_iff)
  with assms have "valid_row w r"
    by (simp add: all_valid_rows)
  from instance_from_db_valid [OF assms this] Some assms show ?thesis
    by (simp add: find_by_id_world)
qed

lemma hydrate_valid:
  "all_valid w \<Longrightarrow> \<forall>r \<in> set rs. valid_row w r \<Longrightarrow> all_valid (snd (hydrate rs w))"
proof (induction rs arbitrary: w)
  case Nil
  then show ?case by simp
next
  case (Cons a rs)
  obtain res w' where step: "instance_from_db a w = (res, w')"
    by (cases "instance_from_db a w")
  from Cons.prems instance_from_db_valid [of w a] step have valid: "all_valid w'"
    by simp
  have rows: "\<forall>r \<in> set rs. valid_row w' r"
    using Cons.prems(2) valid_row_employees [OF instance_from_db_frame(1) [OF step]] by simp
  from Cons.IH [OF valid rows] valid step show ?case
    by (simp add: hydrate_world del: hydrate.simps split: sum.splits)
qed

lemma get_all_valid: "all_valid w \<Longrightarrow> all_valid (snd (get_all w))"
  by (simp add: get_all_def hydrate_valid all_valid_rows)

lemma update_valid:
  assumes "all_valid w" and "self < length (heap w)"
  shows "all_valid (snd (update self w))"
proof (cases "f_id (heap w ! self)")
  case None
  with assms(1) show ?thesis by (simp add: update_unpersisted)
next
  case (Some k)
  show ?thesis
  proof (cases "bindable (f_year (heap w ! self)) \<and> bindable (f_employee_id (heap w ! self))
      \<and> in_int64 k")
    case False
    with Some assms(1) show ?thesis by (simp add: update_too_large)
  next
    case True
    let ?obj = "heap w ! self"
    let ?row = "(k, f_year ?obj, f_summary ?obj, f_employee_id ?obj)"
    let ?w' = "w\<lparr>reviews := map (\<lambda>r. if fst r = k then ?row else r) (reviews w),
        commits := commits w + 1, all := (all w)(k \<mapsto> self)\<rparr>"
    from assms have obj: "valid_review w ?obj"
      by (simp add: all_valid_heap)
    have "all_valid ?w'"
    proof (rule all_validI)
      fix obj assume "obj \<in> set (heap ?w')"
      with assms(1) have "valid_review w obj"
        by (simp add: all_valid_heap)
      then show "valid_review ?w' obj"
        by (simp add: valid_review_def employee_id_ok_def)
    next
      fix r assume "r \<in> set (reviews ?w')"
      then have "r = ?row \<or> r \<in> set (reviews w)"
        by (auto split: if_splits)
      with all_valid_rows [OF assms(1)] stored_row_valid [OF obj] have "valid_row w r"
        by blast
      then show "valid_row ?w' r"
        by (simp add: valid_row_def employee_id_ok_def split: prod.splits)
    qed
    with Some True show ?thesis by (simp add: update_persisted)
  qed
qed

lemma delete_valid:
  assumes "all_valid w" and "self < length (heap w)"
  shows "all_valid (snd (delete self w))"
proof (cases "f_id (heap w ! self)")
  case None
  with assms(1) show ?thesis by (simp add: delete_def)
next
  case (Some k)
  show ?thesis
  proof (cases "in_int64 k")
    case False
    with Some assms(1) show ?thesis by (simp add: delete_too_large)
  next
    case True
    let ?obj = "heap w ! self"
    let ?w' = "w\<lparr>reviews := filter (\<lambda>r. fst r \<noteq> k) (reviews w), commits := commits w + 1,
        all := (all w)(k := None), heap := (heap w)[self := ?obj\<lparr>f_id := None\<rparr>]\<rparr>"
    from assms have obj: "valid_review w ?obj"
      by (simp add: all_valid_heap)
    have "all_valid ?w'"
    proof (rule all_validI)
      fix obj assume "obj \<in> set (heap ?w')"
      then have "obj = ?obj\<lparr>f_id := None\<rparr> \<or> obj \<in> set (heap w)"
        by (simp add: set_update_cases)
      with all_valid_heap [OF assms(1)] obj have "valid_review w obj"
        by (auto simp: valid_review_id)
      then show "valid_review ?w' obj"
        by (simp add: valid_review_def employee_id_ok_def)
    next
      fix r assume "r \<in> set (reviews ?w')"
      with assms(1) have "valid_row w r"
        by (simp add: all_valid_rows)
      then show "valid_row ?w' r"
        by (simp add: valid_row_def employee_id_ok_def split: prod.splits)
    qed
    with Some True show ?thesis by (simp add: delete_persisted)
  qed
qed

lemma hydrate_employees: "employees (snd (hydrate rs w)) = employees w"
proof (induction rs arbitrary: w)
  case Nil
  then show ?case by simp
next
  case (Cons a rs)
  obtain res w' where step: "instance_from_db a w = (res, w')"
    by (cases "instance_from_db a w")
  with Cons.IH [of w'] instance_from_db_frame(1) [OF step] show ?case
    by (simp add: hydrate_world del: hydrate.simps split: sum.splits)
qed

lemma new_Review_employees:
  "employees (snd (new_Review year summary employee_id ident w)) = employees w"
  by (simp add: new_Review_def split: sum.splits)

lemma assign_employees: "employees (snd (assign setter self w)) = employees w"
  by (simp add: assign_def split: sum.splits)

lemma save_employees: "employees (snd (save rowid self w)) = employees w"
  by (simp add: save_def Let_def split: option.splits)

lemma create_employees: "employees (snd (create rowid year summary employee_id w)) = employees w"
  by (simp add: create_world save_employees new_Review_employees split: sum.splits)

lemma instance_from_db_employees: "employees (snd (instance_from_db r w)) = employees w"
  using instance_from_db_frame(1) [of r w] by (cases "instance_from_db r w") simp

lemma find_by_id_employees: "employees (snd (find_by_id i w)) = employees w"
  by (simp add: find_by_id_world instance_from_db_employees split: option.splits)

lemma update_employees: "employees (snd (update self w)) = employees w"
  by (simp add: update_def Let_def split: option.splits)

lemma delete_employees: "employees (snd (delete self w)) = employees w"
  by (simp add: delete_def Let_def split: option.splits)

lemma exec_employees: "employees (exec rowid c w) = employees w"
  by (cases c)
    (simp_all add: new_Review_employees assign_employees save_employees create_employees
      instance_from_db_employees find_by_id_employees update_employees delete_employees
      get_all_def hydrate_employees)

lemma set_id_valid:
  "all_valid w \<Longrightarrow> self < length (heap w) \<Longrightarrow> all_valid (snd (assign (id_setter v) self w))"
  by (rule assign_valid) (simp_all add: id_setter_valid all_valid_heap)

lemma set_year_valid:
  "all_valid w \<Longrightarrow> self < length (heap w) \<Longrightarrow> all_valid (snd (assign (year_setter v) self w))"
  by (rule assign_valid) (simp_all add: year_setter_valid [of w "heap w ! self"] all_valid_heap)

lemma set_summary_valid:
  "all_valid w \<Longrightarrow> self < length (heap w) \<Longrightarrow>
   all_valid (snd (assign (summary_setter v) self w))"
  by (rule assign_valid) (simp_all add: summary_setter_valid [of w "heap w ! self"] all_valid_heap)

lemma set_employee_id_valid:
  "all_valid w \<Longrightarrow> self < length (heap w) \<Longrightarrow>
   all_valid (snd (assign (employee_id_setter w v) self w))"
  by (rule assign_valid)
    (simp_all add: employee_id_setter_valid [of w "heap w ! self"] all_valid_heap)

lemma exec_valid:
  assumes "all_valid w" and "\<forall>r \<in> set (handed_rows [c]). valid_row w r"
  shows "all_valid (exec rowid c w)"
proof (cases c)
  case (New year summary employee_id ident)
  with assms(1) show ?thesis by (simp add: new_Review_valid)
next
  case (Set_id self v)
  with assms(1) show ?thesis by (simp add: set_id_valid)
next
  case (Set_year self v)
  with assms(1) show ?thesis by (simp add: set_year_valid)
next
  case (Set_summary self v)
  with assms(1) show ?thesis by (simp add: set_summary_valid)
next
  case (Set_employee_id self v)
  with assms(1) show ?thesis by (simp add: set_employee_id_valid)
next
  case (Save self)
  with assms(1) show ?thesis by (simp add: save_valid)
next
  case (Create year summary employee_id)
  with assms(1) show ?thesis by (simp add: create_valid)
next
  case (Instance_from_db r)
  with assms show ?thesis by (simp add: instance_from_db_valid)
next
  case (Find_by_id i)
  with assms(1) show ?thesis by (simp add: find_by_id_valid)
next
  case (Update self)
  with assms(1) show ?thesis by (simp add: update_valid)
next
  case (Delete self)
  with assms(1) show ?thesis by (simp add: delete_valid)
next
  case Get_all
  with assms(1) show ?thesis by (simp add: get_all_valid)
qed

lemma handed_rows_Cons: "set (handed_rows (c # calls)) = set (handed_rows [c]) \<union> set (handed_rows calls)"
  by (cases c) simp_all

lemma run_valid:
  "all_valid w \<Longrightarrow> \<forall>r \<in> set (handed_rows calls). valid_row w r \<Longrightarrow>
   all_valid (run rowid calls w)"
proof (induction calls arbitrary: w)
  case Nil
  then show ?case by (simp add: run_def)
next
  case (Cons c calls)
  from Cons.prems(2) have here: "\<forall>r \<in> set (handed_rows [c]). valid_row w r"
    and later: "\<forall>r \<in> set (handed_rows calls). valid_row w r"
    unfolding handed_rows_Cons [of c calls] by simp_all
  from exec_valid [OF Cons.prems(1) here] have "all_valid (exec rowid c w)" .
  moreover from later have "\<forall>r \<in> set (handed_rows calls). valid_row (exec rowid c w) r"
    by (simp add: valid_row_employees [OF exec_employees])
  ultimately have "all_valid (run rowid calls (exec rowid c w))"
    by (rule Cons.IH)
  then show ?case by (simp add: run_def)
qed

text \<open>
  C2, as the code has it. Every assignment through a property setter validates: a setter
  that returns has stored a value that meets the constraint of its attribute, and an
  assignment that raises leaves the state as it was. So, started in a state in which every
  instance and every stored row meets the constraints, any sequence of constructor calls,
  assignments, \<open>save\<close>, \<open>create\<close>, \<open>update\<close>, \<open>delete\<close>, \<open>find_by_id\<close>, \<open>get_all\<close>
  and \<open>instance_from_db\<close> leaves every instance in memory with a valid year, summary
  and employee_id, provided the employees table does not change and every row handed to
  \<open>instance_from_db\<close> meets the constraints. The refresh of a cached instance assigns
  the row's values without validation; the validity of a refreshed instance is that of
  the row.
\<close>

theorem setters_keep_instances_valid:
  assumes "all_valid w" and "\<forall>r \<in> set (handed_rows calls). valid_row w r"
  shows "(\<forall>obj \<in> set (heap (run rowid calls w)). valid_review (run rowid calls w) obj)
       \<and> (\<forall>v obj obj'. year_setter v obj = Inr obj' \<longrightarrow> year_ok (year_getter obj'))
       \<and> (\<forall>v obj obj'. summary_setter v obj = Inr obj' \<longrightarrow> summary_ok (summary_getter obj'))
       \<and> (\<forall>v obj obj' w0. employee_id_setter w0 v obj = Inr obj' \<longrightarrow>
             employee_id_ok w0 (employee_id_getter obj'))
       \<and> (\<forall>setter self w0 err. fst (assign setter self w0) = Inl err \<longrightarrow>
             snd (assign setter self w0) = w0)"
proof (intro conjI allI impI ballI)
  fix obj
  assume "obj \<in> set (heap (run rowid calls w))"
  with run_valid [OF assms, of rowid] show "valid_review (run rowid calls w) obj"
    by (rule all_valid_heap)
next
  fix v obj obj'
  assume "year_setter v obj = Inr obj'"
  from year_setter_ok [OF this] show "year_ok (year_getter obj')"
    by (simp add: getter_defs year_ok_def)
next
  fix v obj obj'
  assume "summary_setter v obj = Inr obj'"
  from summary_setter_ok [OF this] show "summary_ok (summary_getter obj')"
    by (simp add: getter_defs summary_ok_def)
next
  fix v obj obj' w0
  assume "employee_id_setter w0 v obj = Inr obj'"
  from employee_id_setter_ok [OF this] show "employee_id_ok w0 (employee_id_getter obj')"
    by (simp add: getter_defs employee_id_ok_def)
next
  fix setter :: "Review \<Rightarrow> py_error + Review" and self w0 err
  assume "fst (assign setter self w0) = Inl err"
  then show "snd (assign setter self w0) = w0"
    by (simp add: assign_def split: sum.splits)
qed

lemma example_run:
  "run (sqlite_rowid give_up) example_calls example_empty =
     \<lparr>heap = [\<lparr>f_id = Some 1, f_year = Some 2024, f_summary = Some ''Refreshed'',
               f_employee_id = Some 3\<rparr>],
      all = [1 \<mapsto> 0],
      reviews = [(1, Some 2022, Some ''Met expectations'', Some 3)],
      employees = [3], commits = 2\<rparr>"
proof -
  have met: "strip ''Met expectations'' \<noteq> []"
    by (simp add: strip_def is_space_def)
  have created: "exec (sqlite_rowid give_up) (Create (PInt 2022) (PStr ''Exceeded expectations'') (PInt 3))
      example_empty = example_saved"
    by (simp add: create_example)
  have year: "exec (sqlite_rowid give_up) (Set_year 0 (PInt 1999)) example_saved = example_saved"
    by (simp add: assign_def year_setter_def example_defs)
  let ?w2 = "example_saved\<lparr>heap := [example_review\<lparr>f_id := Some 1,
      f_summary := Some ''Met expectations''\<rparr>]\<rparr>"
  have summary: "exec (sqlite_rowid give_up) (Set_summary 0 (PStr ''Met expectations'')) example_saved = ?w2"
    using met by (simp add: assign_def summary_setter_def example_defs)
  let ?w3 = "?w2\<lparr>reviews := [(1, Some 2022, Some ''Met expectations'', Some 3)], commits := 2\<rparr>"
  have updated: "exec (sqlite_rowid give_up) (Update 0) ?w2 = ?w3"
    by (simp add: update_def example_defs bindable_def in_int64_def)
  have cached: "all ?w3 1 = Some 0"
    by (simp add: example_defs)
  have found: "exec (sqlite_rowid give_up) (Find_by_id 1) ?w3 = ?w3"
    by (simp add: find_by_id_def select_by_id_def instance_from_db_cached [OF cached]
        in_int64_def)
      (simp add: example_defs)
  have fetched: "exec (sqlite_rowid give_up) Get_all ?w3 = ?w3"
    by (simp add: get_all_def instance_from_db_cached [OF cached])
      (simp add: example_defs)
  have refreshed: "exec (sqlite_rowid give_up) (Instance_from_db (1, Some 2024, Some ''Refreshed'', Some 3)) ?w3
      = \<lparr>heap = [\<lparr>f_id = Some 1, f_year = Some 2024, f_summary = Some ''Refreshed'',
               f_employee_id = Some 3\<rparr>],
         all = [1 \<mapsto> 0],
         reviews = [(1, Some 2022, Some ''Met expectations'', Some 3)],
         employees = [3], commits = 2\<rparr>"
    by (simp add: instance_from_db_cached [OF cached]) (simp add: example_defs)
  show ?thesis
    by (simp add: run_def example_calls_def created year summary updated found fetched refreshed
        del: exec.simps)
qed

theorem setters_keep_instances_valid_witness:
  "handed_rows example_calls = [(1, Some 2024, Some ''Refreshed'', Some 3)]
   \<and> valid_row example_empty (1, Some 2024, Some ''Refreshed'', Some 3)
   \<and> heap example_empty = [] \<and> reviews example_empty = []
   \<and> heap (run (sqlite_rowid give_up) example_calls example_empty)
       = [\<lparr>f_id = Some 1, f_year = Some 2024, f_summary = Some ''Refreshed'',
           f_employee_id = Some 3\<rparr>]
   \<and> valid_review (run (sqlite_rowid give_up) example_calls example_empty)
       \<lparr>f_id = Some 1, f_year = Some 2024, f_summary = Some ''Refreshed'', f_employee_id = Some 3\<rparr>
   \<and> year_setter (PInt 2023) example_review = Inr (example_review\<lparr>f_year := Some 2023\<rparr>)
   \<and> year_ok (year_getter (example_review\<lparr>f_year := Some 2023\<rparr>))
   \<and> fst (assign (year_setter (PInt 1999)) 0 example_saved) = Inl (ValueError ''year must be >= 2000'')
   \<and> snd (assign (year_setter (PInt 1999)) 0 example_saved) = example_saved"
proof -
  have refreshed: "strip ''Refreshed'' \<noteq> []"
    by (simp add: strip_def is_space_def)
  have start: "all_valid example_empty"
    by (simp add: all_valid_def example_empty_def)
  have handed: "handed_rows example_calls = [(1, Some 2024, Some ''Refreshed'', Some 3)]"
    by (simp add: example_calls_def)
  have rows: "\<forall>r \<in> set (handed_rows example_calls). valid_row example_empty r"
    using refreshed
    by (simp add: handed valid_row_def year_ok_def summary_ok_def employee_id_ok_def
        example_empty_def)
  note valid = setters_keep_instances_valid [OF start rows, of "sqlite_rowid give_up"]
  have objects: "heap (run (sqlite_rowid give_up) example_calls example_empty)
       = [\<lparr>f_id = Some 1, f_year = Some 2024, f_summary = Some ''Refreshed'',
           f_employee_id = Some 3\<rparr>]"
    by (simp add: example_run)
  have in_memory: "valid_review (run (sqlite_rowid give_up) example_calls example_empty)
       \<lparr>f_id = Some 1, f_year = Some 2024, f_summary = Some ''Refreshed'', f_employee_id = Some 3\<rparr>"
    using valid [THEN conjunct1] unfolding objects by simp
  have accepted: "year_setter (PInt 2023) example_review = Inr (example_review\<lparr>f_year := Some 2023\<rparr>)"
    by (simp add: year_setter_def)
  have stored: "year_ok (year_getter (example_review\<lparr>f_year := Some 2023\<rparr>))"
    using valid [THEN conjunct2, THEN conjunct1, rule_format, OF accepted] .
  have raised: "fst (assign (year_setter (PInt 1999)) 0 example_saved)
      = Inl (ValueError ''year must be >= 2000'')"
    by (simp add: assign_def year_setter_def example_defs)
  have unchanged: "snd (assign (year_setter (PInt 1999)) 0 example_saved) = example_saved"
    using valid [THEN conjunct2, THEN conjunct2, THEN conjunct2, THEN conjunct2, rule_format,
        OF raised] .
  have row: "valid_row example_empty (1, Some 2024, Some ''Refreshed'', Some 3)"
    using rows unfolding handed by simp
  have nothing: "heap example_empty = []" "reviews example_empty = []"
    by (simp_all add: example_empty_def)
  show ?thesis
    by (intro conjI) fact+
qed

text \<open>
  The claim as stated holds of no state in which a cached instance is refreshed from a
  row that violates the constraints. After
  \<open>Review.create(2022, "Exceeded expectations", 3)\<close>, the call
  \<open>Review.instance_from_db((1, 1999, "  ", 4))\<close> returns the created instance, which now
  has the year 1999, a summary of blanks and the employee_id 4 of no employee.
\<close>

theorem unvalidated_refresh_counterexample:
  "create (sqlite_rowid give_up) (PInt 2022) (PStr ''Exceeded expectations'') (PInt 3) example_empty
     = (Inr 0, example_saved)
   \<and> fst (instance_from_db (1, Some 1999, Some ''  '', Some 4) example_saved) = Inr 0
   \<and> heap (snd (instance_from_db (1, Some 1999, Some ''  '', Some 4) example_saved)) ! 0
       = \<lparr>f_id = Some 1, f_year = Some 1999, f_summary = Some ''  '', f_employee_id = Some 4\<rparr>
   \<and> \<not> year_ok (PInt 1999) \<and> \<not> summary_ok (PStr ''  '')
   \<and> \<not> employee_id_ok (snd (instance_from_db (1, Some 1999, Some ''  '', Some 4) example_saved))
          (PInt 4)
   \<and> \<not> valid_review (snd (instance_from_db (1, Some 1999, Some ''  '', Some 4) example_saved))
          (heap (snd (instance_from_db (1, Some 1999, Some ''  '', Some 4) example_saved)) ! 0)"
proof -
  have cached: "all example_saved 1 = Some 0"
    by (simp add: example_defs)
  show ?thesis
    by (simp add: create_example instance_from_db_cached [OF cached] year_ok_def summary_ok_def
        strip_spaces employee_id_ok_def valid_review_def getter_defs)
      (simp add: example_defs)
qed

end
